theory Spec2Isabelle
  imports Complex_Main "HOL-Library.Sublist"
begin

section \<open>JavaScript values\<close>

text \<open>
  The sanitizer of \<^verbatim>\<open>server/index.ts\<close> receives a value of type \<^verbatim>\<open>unknown\<close>: the
  parsed JSON body of a request, or the parsed database file. Such a value is
  \<^verbatim>\<open>undefined\<close>, \<^verbatim>\<open>null\<close>, a boolean, a number, a string, an array or a plain object
  whose properties are again such values.

  A JavaScript number is \<^verbatim>\<open>NaN\<close>, an infinity or a finite double, which is modelled by
  the real it denotes; the sign of zero is left out. Comparing two doubles is comparing
  these reals. Adding them rounds, and is modelled as it is further down.

  A string is an Isabelle \<^typ>\<open>string\<close>, read as the UTF-8 bytes of the JavaScript string.
  \<^verbatim>\<open>String.prototype.trim\<close> and \<^verbatim>\<open>String.prototype.toLowerCase\<close> are taken from the
  runtime, as the other built-in functions are.
\<close>

datatype jsnum = NaN | NegInf | Fin real | PosInf

datatype json =
    JUndefined
  | JNull
  | JBool bool
  | JNum jsnum
  | JStr string
  | JArr "json list"
  | JObj "(string \<times> json) list"

datatype error = TypeError

subsection \<open>Numbers\<close>

fun js_le :: "jsnum \<Rightarrow> jsnum \<Rightarrow> bool" where
  "js_le NaN _ = False"
| "js_le _ NaN = False"
| "js_le NegInf _ = True"
| "js_le _ PosInf = True"
| "js_le (Fin a) (Fin b) = (a \<le> b)"
| "js_le (Fin a) NegInf = False"
| "js_le PosInf (Fin b) = False"
| "js_le PosInf NegInf = False"

fun isNaN :: "jsnum \<Rightarrow> bool" where
  "isNaN NaN = True"
| "isNaN _ = False"

definition Math_min :: "jsnum \<Rightarrow> jsnum \<Rightarrow> jsnum" where
  "Math_min a b = (if isNaN a \<or> isNaN b then NaN else if js_le a b then a else b)"

definition Math_max :: "jsnum \<Rightarrow> jsnum \<Rightarrow> jsnum" where
  "Math_max a b = (if isNaN a \<or> isNaN b then NaN else if js_le a b then b else a)"

text \<open>
  \<^verbatim>\<open>function clampNumber(value, min, max) {
    if (Number.isNaN(value)) return min
    return Math.max(min, Math.min(max, value)) }\<close>
  (the same text in the server and in the client).
\<close>

definition clampNumber :: "jsnum \<Rightarrow> jsnum \<Rightarrow> jsnum \<Rightarrow> jsnum" where
  "clampNumber v lo hi = (if isNaN v then lo else Math_max lo (Math_min hi v))"

subsection \<open>Strings\<close>

definition startsWith :: "string \<Rightarrow> string \<Rightarrow> bool" where
  "startsWith s p = (take (length p) s = p)"

fun digit_char :: "nat \<Rightarrow> char" where
  "digit_char n = char_of (48 + n)"

fun dec :: "nat \<Rightarrow> string" where
  "dec n = (if n < 10 then [digit_char n] else dec (n div 10) @ [digit_char (n mod 10)])"

declare dec.simps [simp del]

subsection \<open>The runtime\<close>

text \<open>
  What the code takes from the JavaScript runtime and from the module
  \<^verbatim>\<open>seedData\<close> (which is not part of the sources at hand) is a parameter of the model:
  the conversion between numbers and strings, \<^verbatim>\<open>trim\<close> and \<^verbatim>\<open>toLowerCase\<close> of
  strings, the rounded sum of two finite doubles, \<^verbatim>\<open>Date.parse\<close> (\<open>None\<close> for
  \<^verbatim>\<open>NaN\<close>), \<^verbatim>\<open>Date.prototype.toISOString\<close>, the clock in milliseconds, the random
  identifiers drawn for the item at a given position, \<^verbatim>\<open>toRomaji\<close> of the package
  \<^verbatim>\<open>wanakana\<close>, and the two seed generators.
\<close>

record SeedWord =
  seed_word :: string
  seed_meaningZh :: string
  seed_tags :: "string list"

record SeedSentence =
  seed_sentence :: string
  seed_romaji :: string
  seed_sentence_meaningZh :: string
  seed_sentence_tags :: "string list"
  seed_vocabulary :: "(string \<times> string) list"

record runtime =
  str_to_num :: "string \<Rightarrow> jsnum"
  num_to_str :: "jsnum \<Rightarrow> string"
  trim :: "string \<Rightarrow> string"
  toLowerCase :: "string \<Rightarrow> string"
  float_sum :: "real \<Rightarrow> real \<Rightarrow> jsnum"
  Date_parse :: "string \<Rightarrow> int option"
  toISOString :: "int \<Rightarrow> string"
  clock :: int
  randomUUID :: "nat \<Rightarrow> string"
  uid :: "nat \<Rightarrow> string"
  toRomaji :: "string \<Rightarrow> string"
  generateEnglishSeedWords :: "nat \<Rightarrow> SeedWord list"
  generateJapaneseSeedSentences :: "nat \<Rightarrow> SeedSentence list"

text \<open>
  \<^verbatim>\<open>a + b\<close> on numbers. The sum of two integers is exact as long as they and the sum
  are at most \<open>2 ^ 53\<close> in magnitude; every other sum of finite doubles is the rounded
  one, which the runtime gives.
\<close>

definition safe_integer :: "real \<Rightarrow> bool" where
  "safe_integer x = (x = of_int \<lfloor>x\<rfloor> \<and> \<bar>x\<bar> \<le> 2 ^ 53)"

fun js_add :: "runtime \<Rightarrow> jsnum \<Rightarrow> jsnum \<Rightarrow> jsnum" where
  "js_add rt (Fin a) (Fin b) =
     (if safe_integer a \<and> safe_integer b \<and> safe_integer (a + b) then Fin (a + b)
      else float_sum rt a b)"
| "js_add rt NaN _ = NaN"
| "js_add rt _ NaN = NaN"
| "js_add rt PosInf NegInf = NaN"
| "js_add rt NegInf PosInf = NaN"
| "js_add rt PosInf _ = PosInf"
| "js_add rt _ PosInf = PosInf"
| "js_add rt NegInf _ = NegInf"
| "js_add rt _ NegInf = NegInf"

subsection \<open>Conversions\<close>

definition bindE :: "error + 'a \<Rightarrow> ('a \<Rightarrow> error + 'b) \<Rightarrow> error + 'b" where
  "bindE m f = (case m of Inl e \<Rightarrow> Inl e | Inr v \<Rightarrow> f v)"

fun mapE :: "('a \<Rightarrow> error + 'b) \<Rightarrow> 'a list \<Rightarrow> error + 'b list" where
  "mapE f [] = Inr []"
| "mapE f (x # xs) = bindE (f x) (\<lambda>y. bindE (mapE f xs) (\<lambda>ys. Inr (y # ys)))"

fun has_key :: "string \<Rightarrow> (string \<times> json) list \<Rightarrow> bool" where
  "has_key k [] = False"
| "has_key k ((k', v) # kvs) = (k = k' \<or> has_key k kvs)"

text \<open>
  \<^verbatim>\<open>String(v)\<close>. An array is joined with commas, \<^verbatim>\<open>null\<close> and \<^verbatim>\<open>undefined\<close> elements
  giving the empty string. A plain object gives \<^verbatim>\<open>[object Object]\<close>, unless it has a
  property \<^verbatim>\<open>toString\<close> of its own: a parsed JSON value is never callable, so the
  conversion finds no method that returns a primitive and throws a \<^verbatim>\<open>TypeError\<close>.
\<close>

fun ToString :: "runtime \<Rightarrow> json \<Rightarrow> error + string"
  and join :: "runtime \<Rightarrow> json list \<Rightarrow> error + string"
  and element :: "runtime \<Rightarrow> json \<Rightarrow> error + string" where
  "ToString rt JUndefined = Inr ''undefined''"
| "ToString rt JNull = Inr ''null''"
| "ToString rt (JBool b) = Inr (if b then ''true'' else ''false'')"
| "ToString rt (JNum n) = Inr (num_to_str rt n)"
| "ToString rt (JStr s) = Inr s"
| "ToString rt (JArr xs) = join rt xs"
| "ToString rt (JObj kvs) =
     (if has_key ''toString'' kvs then Inl TypeError else Inr ''[object Object]'')"
| "join rt [] = Inr []"
| "join rt [x] = element rt x"
| "join rt (x # y # ys) =
     bindE (element rt x) (\<lambda>a. bindE (join rt (y # ys)) (\<lambda>b. Inr (a @ '','' @ b)))"
| "element rt JUndefined = Inr []"
| "element rt JNull = Inr []"
| "element rt (JBool b) = ToString rt (JBool b)"
| "element rt (JNum n) = ToString rt (JNum n)"
| "element rt (JStr s) = ToString rt (JStr s)"
| "element rt (JArr xs) = ToString rt (JArr xs)"
| "element rt (JObj kvs) = ToString rt (JObj kvs)"

text \<open>
  \<^verbatim>\<open>Number(v)\<close>. An array is converted through its string; a plain object gives
  \<^verbatim>\<open>NaN\<close> (the number of \<^verbatim>\<open>[object Object]\<close>), or throws as above.
\<close>

fun ToNumber :: "runtime \<Rightarrow> json \<Rightarrow> error + jsnum" where
  "ToNumber rt JUndefined = Inr NaN"
| "ToNumber rt JNull = Inr (Fin 0)"
| "ToNumber rt (JBool b) = Inr (if b then Fin 1 else Fin 0)"
| "ToNumber rt (JNum n) = Inr n"
| "ToNumber rt (JStr s) = Inr (str_to_num rt s)"
| "ToNumber rt (JArr xs) = bindE (ToString rt (JArr xs)) (\<lambda>s. Inr (str_to_num rt s))"
| "ToNumber rt (JObj kvs) = (if has_key ''toString'' kvs then Inl TypeError else Inr NaN)"

text \<open>\<^verbatim>\<open>Boolean(v)\<close>, the truthiness of a value.\<close>

fun ToBoolean :: "json \<Rightarrow> bool" where
  "ToBoolean JUndefined = False"
| "ToBoolean JNull = False"
| "ToBoolean (JBool b) = b"
| "ToBoolean (JNum n) = (case n of NaN \<Rightarrow> False | Fin v \<Rightarrow> v \<noteq> 0 | _ \<Rightarrow> True)"
| "ToBoolean (JStr s) = (s \<noteq> [])"
| "ToBoolean (JArr xs) = True"
| "ToBoolean (JObj kvs) = True"

text \<open>\<^verbatim>\<open>typeof v === 'object'\<close> (true of \<^verbatim>\<open>null\<close> as well), \<^verbatim>\<open>Array.isArray\<close>,
  \<^verbatim>\<open>typeof v === 'string'\<close>.\<close>

fun typeof_object :: "json \<Rightarrow> bool" where
  "typeof_object JNull = True"
| "typeof_object (JArr xs) = True"
| "typeof_object (JObj kvs) = True"
| "typeof_object _ = False"

fun isArray :: "json \<Rightarrow> bool" where
  "isArray (JArr xs) = True"
| "isArray _ = False"

fun elements :: "json \<Rightarrow> json list" where
  "elements (JArr xs) = xs"
| "elements _ = []"

text \<open>\<^verbatim>\<open>a ?? b\<close>.\<close>

fun nullish :: "json \<Rightarrow> json \<Rightarrow> json" where
  "nullish JUndefined d = d"
| "nullish JNull d = d"
| "nullish v d = v"

text \<open>
  \<^verbatim>\<open>v.k\<close> and \<^verbatim>\<open>v?.k\<close>, for the property names the sanitizer reads: none of them is
  a property of a prototype, so only an object that has the key gives a value. (On
  \<^verbatim>\<open>null\<close> and \<^verbatim>\<open>undefined\<close> the plain access throws; the sanitizer guards every plain
  access by a truthiness test and uses \<^verbatim>\<open>?.\<close> elsewhere.)
\<close>

fun get :: "json \<Rightarrow> string \<Rightarrow> json" where
  "get (JObj kvs) k = (case map_of kvs k of Some v \<Rightarrow> v | None \<Rightarrow> JUndefined)"
| "get _ k = JUndefined"

section \<open>The data model\<close>

text \<open>
  The types of \<^verbatim>\<open>server/index.ts\<close>, which the client declares again with the same
  fields. \<^verbatim>\<open>EnglishWord\<close> and \<^verbatim>\<open>JapaneseSentence\<close> share the fields of the review
  schedule; the field \<^verbatim>\<open>id\<close> is called \<open>item_id\<close> here.
\<close>

record ReviewItem =
  item_id :: string
  meaningZh :: string
  tags :: "string list"
  level :: jsnum
  lastReviewedAt :: "string option"

record EnglishWord = ReviewItem +
  word :: string
  needsWork :: bool

record JapaneseVocab =
  vocab_word :: string
  vocab_meaningZh :: string

record JapaneseSentence = ReviewItem +
  sentence :: string
  romaji :: string
  vocabulary :: "JapaneseVocab list"

datatype Engine = Browser | OpenAI

datatype ThemeMode = Light | Dark

record 'a LangBucket =
  en :: 'a
  zh :: 'a
  ja :: 'a

record SpeechSettings =
  engine :: Engine
  openAiVoice :: string
  browserVoices :: "string LangBucket"
  rates :: "jsnum LangBucket"
  pitches :: "jsnum LangBucket"
  browserVolumes :: "jsnum LangBucket"
  openAiVolumes :: "jsnum LangBucket"

record UserDataRecord =
  englishWords :: "EnglishWord list"
  japaneseSentences :: "JapaneseSentence list"
  speechSettings :: SpeechSettings
  theme :: ThemeMode
  updatedAt :: string

definition defaultSpeechSettings :: SpeechSettings where
  "defaultSpeechSettings =
     \<lparr>engine = Browser, openAiVoice = ''alloy'',
      browserVoices = \<lparr>en = [], zh = [], ja = []\<rparr>,
      rates = \<lparr>en = Fin 0.95, zh = Fin 0.95, ja = Fin 0.95\<rparr>,
      pitches = \<lparr>en = Fin 1, zh = Fin 1, ja = Fin 1\<rparr>,
      browserVolumes = \<lparr>en = Fin 1, zh = Fin 1, ja = Fin 1\<rparr>,
      openAiVolumes = \<lparr>en = Fin 0.9, zh = Fin 0.9, ja = Fin 0.9\<rparr>\<rparr>"

section \<open>The sanitizer of the server\<close>

text \<open>The text put in place of an empty meaning, as UTF-8 bytes.\<close>

definition placeholder :: string where
  "placeholder =
     [CHR 0xEF, CHR 0xBC, CHR 0x88, CHR 0xE6, CHR 0x9C, CHR 0xAA, CHR 0xE5, CHR 0xA1,
      CHR 0xAB, CHR 0xE5, CHR 0xAF, CHR 0xAB, CHR 0xEF, CHR 0xBC, CHR 0x89]"

text \<open>\<^verbatim>\<open>Array.from(new Set(xs))\<close>: the first occurrence of each element, in order.\<close>

definition Array_from_Set :: "string list \<Rightarrow> string list" where
  "Array_from_Set xs = foldl (\<lambda>acc x. if x \<in> set acc then acc else acc @ [x]) [] xs"

definition sanitizeTags :: "runtime \<Rightarrow> json \<Rightarrow> error + string list" where
  "sanitizeTags rt raw =
     (if \<not> isArray raw then Inr []
      else bindE
        (mapE (\<lambda>item. bindE (ToString rt (nullish item (JStr []))) (\<lambda>s. Inr (toLowerCase rt (trim rt s))))
           (elements raw))
        (\<lambda>mapped. Inr (take 10 (Array_from_Set (filter (\<lambda>item. item \<noteq> []) mapped)))))"

definition sanitizeEnglishWord :: "runtime \<Rightarrow> json \<Rightarrow> nat \<Rightarrow> error + EnglishWord option" where
  "sanitizeEnglishWord rt raw index =
     (if \<not> ToBoolean raw \<or> \<not> typeof_object raw then Inr None
      else bindE (ToString rt (nullish (get raw ''word'') (JStr []))) (\<lambda>w.
        if trim rt w = [] then Inr None
        else
          bindE (ToString rt (nullish (get raw ''id'')
                   (JStr (''en-'' @ dec index @ ''-'' @ randomUUID rt index)))) (\<lambda>i.
          bindE (ToString rt (nullish (get raw ''meaningZh'') (JStr []))) (\<lambda>m.
          bindE (sanitizeTags rt (get raw ''tags'')) (\<lambda>ts.
          bindE (ToNumber rt (nullish (get raw ''level'') (JNum (Fin 0)))) (\<lambda>l.
            Inr (Some
              \<lparr>item_id = i,
               meaningZh = (if trim rt m = [] then placeholder else trim rt m),
               tags = ts,
               level = clampNumber l (Fin 0) (Fin 6),
               lastReviewedAt = (case get raw ''lastReviewedAt'' of JStr s \<Rightarrow> Some s | _ \<Rightarrow> None),
               word = trim rt w,
               needsWork = ToBoolean (get raw ''needsWork'')\<rparr>)))))))"

definition sanitizeVocab :: "runtime \<Rightarrow> json \<Rightarrow> error + JapaneseVocab option" where
  "sanitizeVocab rt item =
     (if \<not> ToBoolean item \<or> \<not> typeof_object item then Inr None
      else bindE (ToString rt (nullish (get item ''word'') (JStr []))) (\<lambda>w.
           bindE (ToString rt (nullish (get item ''meaningZh'') (JStr []))) (\<lambda>m.
             if trim rt w = [] \<or> trim rt m = [] then Inr None
             else Inr (Some \<lparr>vocab_word = trim rt w, vocab_meaningZh = trim rt m\<rparr>))))"

text \<open>\<^verbatim>\<open>xs.filter((item) => item !== null)\<close> on a list of results.\<close>

fun non_null :: "'a option list \<Rightarrow> 'a list" where
  "non_null [] = []"
| "non_null (None # xs) = non_null xs"
| "non_null (Some x # xs) = x # non_null xs"

definition sanitizeJapaneseSentence ::
  "runtime \<Rightarrow> json \<Rightarrow> nat \<Rightarrow> error + JapaneseSentence option" where
  "sanitizeJapaneseSentence rt raw index =
     (if \<not> ToBoolean raw \<or> \<not> typeof_object raw then Inr None
      else bindE (ToString rt (nullish (get raw ''sentence'') (JStr []))) (\<lambda>s.
        if trim rt s = [] then Inr None
        else
          let vocabularyRaw =
                (if isArray (get raw ''vocabulary'') then elements (get raw ''vocabulary'') else [])
          in
          bindE (ToString rt (nullish (get raw ''id'')
                   (JStr (''ja-'' @ dec index @ ''-'' @ randomUUID rt index)))) (\<lambda>i.
          bindE (ToString rt (nullish (get raw ''romaji'') (JStr []))) (\<lambda>r.
          bindE (ToString rt (nullish (get raw ''meaningZh'') (JStr []))) (\<lambda>m.
          bindE (sanitizeTags rt (get raw ''tags'')) (\<lambda>ts.
          bindE (mapE (sanitizeVocab rt) vocabularyRaw) (\<lambda>vs.
          bindE (ToNumber rt (nullish (get raw ''level'') (JNum (Fin 0)))) (\<lambda>l.
            Inr (Some
              \<lparr>item_id = i,
               meaningZh = (if trim rt m = [] then placeholder else trim rt m),
               tags = ts,
               level = clampNumber l (Fin 0) (Fin 6),
               lastReviewedAt = (case get raw ''lastReviewedAt'' of JStr s \<Rightarrow> Some s | _ \<Rightarrow> None),
               sentence = trim rt s,
               romaji = (if trim rt r = [] then trim rt s else trim rt r),
               vocabulary = non_null vs\<rparr>)))))))))"

text \<open>
  One of the five maps of numbers of \<^verbatim>\<open>sanitizeSpeechSettings\<close>: the three entries
  \<^verbatim>\<open>clampNumber(Number(v), min, max)\<close>, \<open>v k\<close> being the value the source reads for the
  bucket \<open>k\<close>.
\<close>

definition numberBuckets ::
  "runtime \<Rightarrow> (string \<Rightarrow> json) \<Rightarrow> jsnum \<Rightarrow> jsnum \<Rightarrow> error + jsnum LangBucket" where
  "numberBuckets rt v lo hi =
     bindE (ToNumber rt (v ''en'')) (\<lambda>e.
     bindE (ToNumber rt (v ''zh'')) (\<lambda>z.
     bindE (ToNumber rt (v ''ja'')) (\<lambda>j.
       Inr \<lparr>en = clampNumber e lo hi, zh = clampNumber z lo hi, ja = clampNumber j lo hi\<rparr>)))"

definition string_or_empty :: "json \<Rightarrow> string" where
  "string_or_empty v = (case v of JStr s \<Rightarrow> s | _ \<Rightarrow> [])"

definition sanitizeSpeechSettings :: "runtime \<Rightarrow> json \<Rightarrow> error + SpeechSettings" where
  "sanitizeSpeechSettings rt raw =
     (let source = (if ToBoolean raw \<and> typeof_object raw then raw else JObj []);
          legacyVolumes = get source ''volumes''
      in
      bindE (numberBuckets rt
               (\<lambda>k. nullish (get (get source ''rates'') k) (JNum (Fin 0.95)))
               (Fin 0.6) (Fin 1.3)) (\<lambda>rs.
      bindE (numberBuckets rt
               (\<lambda>k. nullish (get (get source ''pitches'') k) (JNum (Fin 1)))
               (Fin 0.7) (Fin 1.4)) (\<lambda>ps.
      bindE (numberBuckets rt
               (\<lambda>k. nullish (get (get source ''browserVolumes'') k)
                       (nullish (get legacyVolumes k) (JNum (Fin 1))))
               (Fin 0) (Fin 1)) (\<lambda>bs.
      bindE (numberBuckets rt
               (\<lambda>k. nullish (get (get source ''openAiVolumes'') k)
                       (nullish (get legacyVolumes k) (JNum (Fin 0.9))))
               (Fin 0) (Fin 1)) (\<lambda>os.
        Inr \<lparr>engine = (if get source ''engine'' = JStr ''openai'' then OpenAI else Browser),
             openAiVoice =
               (case get source ''openAiVoice'' of
                  JStr s \<Rightarrow> if trim rt s \<noteq> [] then trim rt s else ''alloy''
                | _ \<Rightarrow> ''alloy''),
             browserVoices =
               \<lparr>en = string_or_empty (get (get source ''browserVoices'') ''en''),
                zh = string_or_empty (get (get source ''browserVoices'') ''zh''),
                ja = string_or_empty (get (get source ''browserVoices'') ''ja'')\<rparr>,
             rates = rs, pitches = ps, browserVolumes = bs, openAiVolumes = os\<rparr>)))))"

definition parseIsoOr :: "runtime \<Rightarrow> json \<Rightarrow> string \<Rightarrow> string" where
  "parseIsoOr rt v fallback =
     (case v of
        JStr s \<Rightarrow> (case Date_parse rt s of None \<Rightarrow> fallback | Some timestamp \<Rightarrow> toISOString rt timestamp)
      | _ \<Rightarrow> fallback)"

text \<open>
  \<^verbatim>\<open>createInitialUserData\<close> builds the seed set from the two generators of
  \<^verbatim>\<open>seedData\<close>; the identifiers count from 1.
\<close>

definition seedEnglishWord :: "runtime \<Rightarrow> nat \<times> SeedWord \<Rightarrow> error + EnglishWord" where
  "seedEnglishWord rt p =
     (case p of (index, item) \<Rightarrow>
        bindE (sanitizeTags rt (JArr (map JStr (seed_tags item)))) (\<lambda>ts.
          Inr \<lparr>item_id = ''en-seed-'' @ dec (index + 1),
               meaningZh = seed_meaningZh item,
               tags = ts,
               level = Fin 0,
               lastReviewedAt = None,
               word = seed_word item,
               needsWork = False\<rparr>))"

definition seedJapaneseSentence :: "runtime \<Rightarrow> nat \<times> SeedSentence \<Rightarrow> error + JapaneseSentence" where
  "seedJapaneseSentence rt p =
     (case p of (index, item) \<Rightarrow>
        bindE (sanitizeTags rt (JArr (map JStr (seed_sentence_tags item)))) (\<lambda>ts.
          Inr \<lparr>item_id = ''ja-seed-'' @ dec (index + 1),
               meaningZh = seed_sentence_meaningZh item,
               tags = ts,
               level = Fin 0,
               lastReviewedAt = None,
               sentence = seed_sentence item,
               romaji = seed_romaji item,
               vocabulary =
                 map (\<lambda>vocab. \<lparr>vocab_word = fst vocab, vocab_meaningZh = snd vocab\<rparr>)
                   (seed_vocabulary item)\<rparr>))"

definition createInitialUserData :: "runtime \<Rightarrow> error + UserDataRecord" where
  "createInitialUserData rt =
     bindE (mapE (seedEnglishWord rt) (enumerate 0 (generateEnglishSeedWords rt 220))) (\<lambda>ws.
     bindE (mapE (seedJapaneseSentence rt) (enumerate 0 (generateJapaneseSeedSentences rt 220))) (\<lambda>ss.
       Inr \<lparr>englishWords = ws, japaneseSentences = ss,
            speechSettings = defaultSpeechSettings,
            theme = Light,
            updatedAt = toISOString rt (clock rt)\<rparr>))"

definition sanitizeUserData :: "runtime \<Rightarrow> json \<Rightarrow> error + UserDataRecord" where
  "sanitizeUserData rt raw =
     (let source = (if ToBoolean raw \<and> typeof_object raw then raw else JObj []) in
      bindE (if isArray (get source ''englishWords'')
             then bindE (mapE (\<lambda>(index, item). sanitizeEnglishWord rt item index)
                           (enumerate 0 (elements (get source ''englishWords''))))
                    (\<lambda>rs. Inr (non_null rs))
             else Inr []) (\<lambda>ws.
      bindE (if isArray (get source ''japaneseSentences'')
             then bindE (mapE (\<lambda>(index, item). sanitizeJapaneseSentence rt item index)
                           (enumerate 0 (elements (get source ''japaneseSentences''))))
                    (\<lambda>rs. Inr (non_null rs))
             else Inr []) (\<lambda>ss.
      let now = toISOString rt (clock rt) in
      bindE (if ws \<noteq> [] then Inr ws
             else bindE (createInitialUserData rt) (\<lambda>d. Inr (englishWords d))) (\<lambda>ws'.
      bindE (if ss \<noteq> [] then Inr ss
             else bindE (createInitialUserData rt) (\<lambda>d. Inr (japaneseSentences d))) (\<lambda>ss'.
      bindE (sanitizeSpeechSettings rt (get source ''speechSettings'')) (\<lambda>sp.
        Inr \<lparr>englishWords = ws', japaneseSentences = ss',
             speechSettings = sp,
             theme = (if get source ''theme'' = JStr ''dark'' then Dark else Light),
             updatedAt = parseIsoOr rt (get source ''updatedAt'') now\<rparr>))))))"

text \<open>
  The constants \<^verbatim>\<open>englishWords\<close> and \<^verbatim>\<open>japaneseSentences\<close> of \<^verbatim>\<open>sanitizeUserData\<close>: the
  items of the input that the sanitizer keeps, before the seed set stands in for an empty
  list.
\<close>

definition kept_englishWords :: "runtime \<Rightarrow> json \<Rightarrow> error + EnglishWord list" where
  "kept_englishWords rt raw =
     (let source = (if ToBoolean raw \<and> typeof_object raw then raw else JObj []) in
      if isArray (get source ''englishWords'')
      then bindE (mapE (\<lambda>(index, item). sanitizeEnglishWord rt item index)
                    (enumerate 0 (elements (get source ''englishWords''))))
             (\<lambda>rs. Inr (non_null rs))
      else Inr [])"

definition kept_japaneseSentences :: "runtime \<Rightarrow> json \<Rightarrow> error + JapaneseSentence list" where
  "kept_japaneseSentences rt raw =
     (let source = (if ToBoolean raw \<and> typeof_object raw then raw else JObj []) in
      if isArray (get source ''japaneseSentences'')
      then bindE (mapE (\<lambda>(index, item). sanitizeJapaneseSentence rt item index)
                    (enumerate 0 (elements (get source ''japaneseSentences''))))
             (\<lambda>rs. Inr (non_null rs))
      else Inr [])"

section \<open>The scheduler of the client\<close>

definition REVIEW_INTERVAL_DAYS :: "int list" where
  "REVIEW_INTERVAL_DAYS = [0, 1, 3, 7, 14, 30]"

text \<open>
  \<^verbatim>\<open>xs[n]\<close> for a number \<open>n\<close>: \<^verbatim>\<open>undefined\<close> unless \<open>n\<close> is an integer from \<open>0\<close>
  below the length.
\<close>

definition array_get :: "'a list \<Rightarrow> jsnum \<Rightarrow> 'a option" where
  "array_get xs n =
     (case n of
        Fin v \<Rightarrow>
          if v = of_int \<lfloor>v\<rfloor> \<and> 0 \<le> v \<and> v < real (length xs) then Some (xs ! nat \<lfloor>v\<rfloor>) else None
      | _ \<Rightarrow> None)"

text \<open>
  \<^verbatim>\<open>REVIEW_INTERVAL_DAYS[level] ?? REVIEW_INTERVAL_DAYS[REVIEW_INTERVAL_DAYS.length - 1]\<close>
\<close>

definition waitDays :: "jsnum \<Rightarrow> int" where
  "waitDays l =
     (case array_get REVIEW_INTERVAL_DAYS l of
        Some d \<Rightarrow> d
      | None \<Rightarrow> REVIEW_INTERVAL_DAYS ! (length REVIEW_INTERVAL_DAYS - 1))"

definition isDue :: "runtime \<Rightarrow> jsnum \<Rightarrow> string option \<Rightarrow> bool" where
  "isDue rt l reviewed =
     (case reviewed of
        None \<Rightarrow> True
      | Some s \<Rightarrow>
          if s = [] then True
          else (case Date_parse rt s of
                  None \<Rightarrow> True
                | Some reviewedAt \<Rightarrow> reviewedAt + waitDays l * 24 * 60 * 60 * 1000 \<le> clock rt))"

section \<open>The state of the client\<close>

text \<open>
  The module-level variables of the client that the review functions read and write. The
  variables \<^verbatim>\<open>englishWords\<close> and \<^verbatim>\<open>japaneseSentences\<close> carry the suffix \<open>_g\<close>. An
  \<^verbatim>\<open>AbortController\<close> is the number of controllers made before it. What the functions
  do to the page, the timers and the audio channel is recorded in \<open>effects\<close>.
\<close>

datatype effect = Toast | Render | SchedulePersist | Abort nat | StopActivePlayback

record 'a ReviewState =
  queue :: "'a list"
  index :: int
  running :: bool
  paused :: bool
  runId :: int

record client =
  englishWords_g :: "EnglishWord list"
  japaneseSentences_g :: "JapaneseSentence list"
  englishGroup :: string
  japaneseGroup :: string
  englishReview :: "EnglishWord ReviewState"
  japaneseReview :: "JapaneseSentence ReviewState"
  englishAbort :: "nat option"
  japaneseAbort :: "nat option"
  controllers :: nat
  effects :: "effect list"

definition emit :: "effect \<Rightarrow> client \<Rightarrow> client" where
  "emit e st = st\<lparr>effects := effects st @ [e]\<rparr>"

definition maxLevel :: jsnum where
  "maxLevel = Fin (real (length REVIEW_INTERVAL_DAYS) - 1)"

definition markEnglishReviewed :: "runtime \<Rightarrow> string \<Rightarrow> client \<Rightarrow> client" where
  "markEnglishReviewed rt i st =
     (let now = toISOString rt (clock rt) in
      emit SchedulePersist
        (st\<lparr>englishWords_g :=
              map (\<lambda>item. if item_id item = i
                     then item\<lparr>level := Math_min (js_add rt (level item) (Fin 1)) maxLevel,
                               lastReviewedAt := Some now\<rparr>
                     else item)
                (englishWords_g st)\<rparr>))"

definition markJapaneseReviewed :: "runtime \<Rightarrow> string \<Rightarrow> client \<Rightarrow> client" where
  "markJapaneseReviewed rt i st =
     (let now = toISOString rt (clock rt) in
      emit SchedulePersist
        (st\<lparr>japaneseSentences_g :=
              map (\<lambda>item. if item_id item = i
                     then item\<lparr>level := Math_min (js_add rt (level item) (Fin 1)) maxLevel,
                               lastReviewedAt := Some now\<rparr>
                     else item)
                (japaneseSentences_g st)\<rparr>))"

section \<open>Grouping\<close>

definition getEnglishQueueByGroup :: "runtime \<Rightarrow> string \<Rightarrow> client \<Rightarrow> EnglishWord list" where
  "getEnglishQueueByGroup rt grp st =
     filter (\<lambda>item.
        if grp = ''all'' then True
        else if grp = ''due'' then isDue rt (level item) (lastReviewedAt item)
        else if grp = ''needs-work'' then needsWork item
        else if startsWith grp ''tag:'' then drop 4 grp \<in> set (tags item)
        else True)
       (englishWords_g st)"

definition getJapaneseQueueByGroup ::
  "runtime \<Rightarrow> string \<Rightarrow> client \<Rightarrow> JapaneseSentence list" where
  "getJapaneseQueueByGroup rt grp st =
     filter (\<lambda>item.
        if grp = ''all'' then True
        else if grp = ''due'' then isDue rt (level item) (lastReviewedAt item)
        else if startsWith grp ''tag:'' then drop 4 grp \<in> set (tags item)
        else True)
       (japaneseSentences_g st)"

section \<open>The normalizer of the client\<close>

definition normalizeEnglishWords :: "runtime \<Rightarrow> EnglishWord list \<Rightarrow> EnglishWord list" where
  "normalizeEnglishWords rt input =
     map (\<lambda>(index, item).
        \<lparr>item_id = (if item_id item \<noteq> [] then item_id item
                     else ''en-'' @ dec index @ ''-'' @ uid rt index),
         meaningZh = meaningZh item,
         tags = map (toLowerCase rt) (tags item),
         level = clampNumber (level item) (Fin 0) maxLevel,
         lastReviewedAt = lastReviewedAt item,
         word = word item,
         needsWork = needsWork item\<rparr>)
       (enumerate 0 input)"

definition normalizeJapaneseSentences ::
  "runtime \<Rightarrow> JapaneseSentence list \<Rightarrow> JapaneseSentence list" where
  "normalizeJapaneseSentences rt input =
     map (\<lambda>(index, item).
        \<lparr>item_id = (if item_id item \<noteq> [] then item_id item
                     else ''ja-'' @ dec index @ ''-'' @ uid rt index),
         meaningZh = meaningZh item,
         tags = map (toLowerCase rt) (tags item),
         level = clampNumber (level item) (Fin 0) maxLevel,
         lastReviewedAt = lastReviewedAt item,
         sentence = sentence item,
         romaji = (if romaji item \<noteq> [] then romaji item else toRomaji rt (sentence item)),
         vocabulary =
           map (\<lambda>vocab. \<lparr>vocab_word = vocab_word vocab, vocab_meaningZh = vocab_meaningZh vocab\<rparr>)
             (vocabulary item)\<rparr>)
       (enumerate 0 input)"

section \<open>The playback queue\<close>

text \<open>
  \<^verbatim>\<open>runEnglishReview\<close> is an asynchronous function. A call runs until it returns, throws
  or reaches an \<^verbatim>\<open>await\<close>; the model gives the state at that point together with the
  outcome. A suspended loop is resumed by \<open>resumeEnglishReview\<close> with the run identifier it
  was started with, on whatever the state has become in the meantime.
\<close>

datatype 'a await = AwaitSleep | AwaitSpeak 'a

datatype 'a outcome = Returned | Threw | Suspended "'a await"

text \<open>\<^verbatim>\<open>clampNumber\<close> at integers, where the test for \<^verbatim>\<open>NaN\<close> never holds.\<close>

definition clampNumber_int :: "int \<Rightarrow> int \<Rightarrow> int \<Rightarrow> int" where
  "clampNumber_int v lo hi = max lo (min hi v)"

definition stopEnglishReview :: "bool \<Rightarrow> client \<Rightarrow> client" where
  "stopEnglishReview stopPlayback st =
     (let r = englishReview st;
          st1 = st\<lparr>englishReview :=
                    r\<lparr>queue := [], index := 0, running := False, paused := False,
                      runId := runId r + 1\<rparr>\<rparr>;
          st2 = (case englishAbort st1 of
                   Some c \<Rightarrow> (emit (Abort c) st1)\<lparr>englishAbort := None\<rparr>
                 | None \<Rightarrow> st1);
          st3 = (if stopPlayback then emit StopActivePlayback st2 else st2)
      in emit Render st3)"

definition stopJapaneseReview :: "bool \<Rightarrow> client \<Rightarrow> client" where
  "stopJapaneseReview stopPlayback st =
     (let r = japaneseReview st;
          st1 = st\<lparr>japaneseReview :=
                    r\<lparr>queue := [], index := 0, running := False, paused := False,
                      runId := runId r + 1\<rparr>\<rparr>;
          st2 = (case japaneseAbort st1 of
                   Some c \<Rightarrow> (emit (Abort c) st1)\<lparr>japaneseAbort := None\<rparr>
                 | None \<Rightarrow> st1);
          st3 = (if stopPlayback then emit StopActivePlayback st2 else st2)
      in emit Render st3)"

text \<open>
  The body of the outer loop up to its \<^verbatim>\<open>await speakEnglishWord(current, ...)\<close>. The loop
  that waits while paused suspends at \<^verbatim>\<open>await sleep(120)\<close> and tests again when resumed.
  \<^verbatim>\<open>queue[index]\<close> is \<^verbatim>\<open>undefined\<close> at an index outside the queue (the queue may
  have changed while the loop slept), where \<^verbatim>\<open>speakEnglishWord\<close> throws on reading
  \<^verbatim>\<open>item.word\<close>.
\<close>

definition runEnglishReview_body :: "int \<Rightarrow> client \<Rightarrow> client \<times> EnglishWord outcome" where
  "runEnglishReview_body rid st =
     (let r = englishReview st in
      if paused r \<and> running r \<and> runId r = rid then (st, Suspended AwaitSleep)
      else if \<not> running r \<or> runId r \<noteq> rid then (st, Returned)
      else
        let st1 = st\<lparr>englishAbort := Some (controllers st), controllers := controllers st + 1\<rparr>
        in if index r < 0 \<or> int (length (queue r)) \<le> index r then (st1, Threw)
           else (st1, Suspended (AwaitSpeak (queue r ! nat (index r)))))"

definition runEnglishReview :: "int \<Rightarrow> client \<Rightarrow> client \<times> EnglishWord outcome" where
  "runEnglishReview rid st =
     (let r = englishReview st in
      if running r \<and> runId r = rid \<and> index r < int (length (queue r))
      then runEnglishReview_body rid st
      else (stopEnglishReview False st, Returned))"

definition resumeEnglishReview ::
  "runtime \<Rightarrow> int \<Rightarrow> EnglishWord await \<Rightarrow> client \<Rightarrow> client \<times> EnglishWord outcome" where
  "resumeEnglishReview rt rid aw st =
     (case aw of
        AwaitSleep \<Rightarrow> runEnglishReview_body rid st
      | AwaitSpeak current \<Rightarrow>
          let r = englishReview st in
          if \<not> running r \<or> runId r \<noteq> rid then (st, Returned)
          else
            let st1 = markEnglishReviewed rt (item_id current) st;
                r1 = englishReview st1;
                st2 = st1\<lparr>englishReview := r1\<lparr>index := index r1 + 1\<rparr>\<rparr>
            in runEnglishReview rid (emit Render st2))"

definition runJapaneseReview_body ::
  "int \<Rightarrow> client \<Rightarrow> client \<times> JapaneseSentence outcome" where
  "runJapaneseReview_body rid st =
     (let r = japaneseReview st in
      if paused r \<and> running r \<and> runId r = rid then (st, Suspended AwaitSleep)
      else if \<not> running r \<or> runId r \<noteq> rid then (st, Returned)
      else
        let st1 = st\<lparr>japaneseAbort := Some (controllers st), controllers := controllers st + 1\<rparr>
        in if index r < 0 \<or> int (length (queue r)) \<le> index r then (st1, Threw)
           else (st1, Suspended (AwaitSpeak (queue r ! nat (index r)))))"

definition runJapaneseReview :: "int \<Rightarrow> client \<Rightarrow> client \<times> JapaneseSentence outcome" where
  "runJapaneseReview rid st =
     (let r = japaneseReview st in
      if running r \<and> runId r = rid \<and> index r < int (length (queue r))
      then runJapaneseReview_body rid st
      else (stopJapaneseReview False st, Returned))"

definition resumeJapaneseReview ::
  "runtime \<Rightarrow> int \<Rightarrow> JapaneseSentence await \<Rightarrow> client
     \<Rightarrow> client \<times> JapaneseSentence outcome" where
  "resumeJapaneseReview rt rid aw st =
     (case aw of
        AwaitSleep \<Rightarrow> runJapaneseReview_body rid st
      | AwaitSpeak current \<Rightarrow>
          let r = japaneseReview st in
          if \<not> running r \<or> runId r \<noteq> rid then (st, Returned)
          else
            let st1 = markJapaneseReviewed rt (item_id current) st;
                r1 = japaneseReview st1;
                st2 = st1\<lparr>japaneseReview := r1\<lparr>index := index r1 + 1\<rparr>\<rparr>
            in runJapaneseReview rid (emit Render st2))"

definition startEnglishReview :: "runtime \<Rightarrow> client \<Rightarrow> client \<times> EnglishWord outcome" where
  "startEnglishReview rt st =
     (let st1 = st\<lparr>englishReview :=
                    (englishReview st)\<lparr>queue := getEnglishQueueByGroup rt (englishGroup st) st\<rparr>\<rparr>
      in if length (queue (englishReview st1)) = 0 then (emit Toast st1, Returned)
         else
           let st2 = stopJapaneseReview False st1;
               r = englishReview st2;
               st3 = st2\<lparr>englishReview :=
                         r\<lparr>running := True, paused := False, index := 0, runId := runId r + 1\<rparr>\<rparr>;
               st4 = emit Render st3
           in runEnglishReview (runId (englishReview st4)) st4)"

definition startJapaneseReview :: "runtime \<Rightarrow> client \<Rightarrow> client \<times> JapaneseSentence outcome" where
  "startJapaneseReview rt st =
     (let st1 = st\<lparr>japaneseReview :=
                    (japaneseReview st)\<lparr>queue := getJapaneseQueueByGroup rt (japaneseGroup st) st\<rparr>\<rparr>
      in if length (queue (japaneseReview st1)) = 0 then (emit Toast st1, Returned)
         else
           let st2 = stopEnglishReview False st1;
               r = japaneseReview st2;
               st3 = st2\<lparr>japaneseReview :=
                         r\<lparr>running := True, paused := False, index := 0, runId := runId r + 1\<rparr>\<rparr>;
               st4 = emit Render st3
           in runJapaneseReview (runId (japaneseReview st4)) st4)"

definition shiftEnglishReview :: "int \<Rightarrow> client \<Rightarrow> client \<times> EnglishWord outcome" where
  "shiftEnglishReview step st =
     (let r = englishReview st in
      if \<not> running r \<or> length (queue r) = 0 then (st, Returned)
      else
        let nextIndex = clampNumber_int (index r + step) 0 (int (length (queue r)) - 1);
            st1 = st\<lparr>englishReview :=
                      r\<lparr>index := nextIndex, paused := False, runId := runId r + 1\<rparr>\<rparr>;
            st2 = (case englishAbort st1 of Some c \<Rightarrow> emit (Abort c) st1 | None \<Rightarrow> st1);
            st3 = emit Render st2
        in runEnglishReview (runId (englishReview st3)) st3)"

definition shiftJapaneseReview :: "int \<Rightarrow> client \<Rightarrow> client \<times> JapaneseSentence outcome" where
  "shiftJapaneseReview step st =
     (let r = japaneseReview st in
      if \<not> running r \<or> length (queue r) = 0 then (st, Returned)
      else
        let nextIndex = clampNumber_int (index r + step) 0 (int (length (queue r)) - 1);
            st1 = st\<lparr>japaneseReview :=
                      r\<lparr>index := nextIndex, paused := False, runId := runId r + 1\<rparr>\<rparr>;
            st2 = (case japaneseAbort st1 of Some c \<Rightarrow> emit (Abort c) st1 | None \<Rightarrow> st1);
            st3 = emit Render st2
        in runJapaneseReview (runId (japaneseReview st3)) st3)"

section \<open>Sanitized records as values\<close>

text \<open>
  The types of TypeScript are erased when the code runs: a sanitized record is the object
  with these properties, which is what a second call of the sanitizer receives.
\<close>

definition json_of_tags :: "string list \<Rightarrow> json" where
  "json_of_tags ts = JArr (map JStr ts)"

definition json_of_lastReviewedAt :: "string option \<Rightarrow> json" where
  "json_of_lastReviewedAt r = (case r of None \<Rightarrow> JNull | Some s \<Rightarrow> JStr s)"

definition json_of_EnglishWord :: "EnglishWord \<Rightarrow> json" where
  "json_of_EnglishWord w =
     JObj [(''id'', JStr (item_id w)), (''word'', JStr (word w)),
           (''meaningZh'', JStr (meaningZh w)), (''tags'', json_of_tags (tags w)),
           (''needsWork'', JBool (needsWork w)), (''level'', JNum (level w)),
           (''lastReviewedAt'', json_of_lastReviewedAt (lastReviewedAt w))]"

definition json_of_JapaneseVocab :: "JapaneseVocab \<Rightarrow> json" where
  "json_of_JapaneseVocab v =
     JObj [(''word'', JStr (vocab_word v)), (''meaningZh'', JStr (vocab_meaningZh v))]"

definition json_of_JapaneseSentence :: "JapaneseSentence \<Rightarrow> json" where
  "json_of_JapaneseSentence x =
     JObj [(''id'', JStr (item_id x)), (''sentence'', JStr (sentence x)),
           (''romaji'', JStr (romaji x)), (''meaningZh'', JStr (meaningZh x)),
           (''tags'', json_of_tags (tags x)),
           (''vocabulary'', JArr (map json_of_JapaneseVocab (vocabulary x))),
           (''level'', JNum (level x)),
           (''lastReviewedAt'', json_of_lastReviewedAt (lastReviewedAt x))]"

definition json_of_strings :: "string LangBucket \<Rightarrow> json" where
  "json_of_strings b = JObj [(''en'', JStr (en b)), (''zh'', JStr (zh b)), (''ja'', JStr (ja b))]"

definition json_of_numbers :: "jsnum LangBucket \<Rightarrow> json" where
  "json_of_numbers b = JObj [(''en'', JNum (en b)), (''zh'', JNum (zh b)), (''ja'', JNum (ja b))]"

definition json_of_SpeechSettings :: "SpeechSettings \<Rightarrow> json" where
  "json_of_SpeechSettings sp =
     JObj [(''engine'', JStr (case engine sp of Browser \<Rightarrow> ''browser'' | OpenAI \<Rightarrow> ''openai'')),
           (''openAiVoice'', JStr (openAiVoice sp)),
           (''browserVoices'', json_of_strings (browserVoices sp)),
           (''rates'', json_of_numbers (rates sp)),
           (''pitches'', json_of_numbers (pitches sp)),
           (''browserVolumes'', json_of_numbers (browserVolumes sp)),
           (''openAiVolumes'', json_of_numbers (openAiVolumes sp))]"

definition json_of_UserDataRecord :: "UserDataRecord \<Rightarrow> json" where
  "json_of_UserDataRecord d =
     JObj [(''englishWords'', JArr (map json_of_EnglishWord (englishWords d))),
           (''japaneseSentences'', JArr (map json_of_JapaneseSentence (japaneseSentences d))),
           (''speechSettings'', json_of_SpeechSettings (speechSettings d)),
           (''theme'', JStr (case theme d of Light \<Rightarrow> ''light'' | Dark \<Rightarrow> ''dark'')),
           (''updatedAt'', JStr (updatedAt d))]"

section \<open>What the sanitizer establishes\<close>

text \<open>
  The properties of a record that the sanitizer has returned, as far as a second pass
  depends on them: texts are trimmed and not empty, tags are lower-case, trimmed, distinct
  and at most ten, and numbers are inside their ranges.
\<close>

definition trimmed :: "runtime \<Rightarrow> string \<Rightarrow> bool" where
  "trimmed rt s = (s \<noteq> [] \<and> trim rt s = s)"

definition clean_tags :: "runtime \<Rightarrow> string list \<Rightarrow> bool" where
  "clean_tags rt ts =
     (distinct ts \<and> length ts \<le> 10
      \<and> (\<forall>t \<in> set ts. t \<noteq> [] \<and> toLowerCase rt (trim rt t) = t))"

definition clean_item :: "runtime \<Rightarrow> 'a ReviewItem_scheme \<Rightarrow> bool" where
  "clean_item rt x =
     (trimmed rt (meaningZh x) \<and> clean_tags rt (tags x)
      \<and> clampNumber (level x) (Fin 0) (Fin 6) = level x)"

definition clean_word :: "runtime \<Rightarrow> EnglishWord \<Rightarrow> bool" where
  "clean_word rt w = (clean_item rt w \<and> trimmed rt (word w))"

definition clean_vocab :: "runtime \<Rightarrow> JapaneseVocab \<Rightarrow> bool" where
  "clean_vocab rt v = (trimmed rt (vocab_word v) \<and> trimmed rt (vocab_meaningZh v))"

definition clean_sentence :: "runtime \<Rightarrow> JapaneseSentence \<Rightarrow> bool" where
  "clean_sentence rt x =
     (clean_item rt x \<and> trimmed rt (sentence x) \<and> trimmed rt (romaji x)
      \<and> list_all (clean_vocab rt) (vocabulary x))"



text \<open>
  What a second pass takes from the runtime, all of it true of JavaScript.
  \<^verbatim>\<open>Date.parse\<close> reads back what \<^verbatim>\<open>toISOString\<close> writes, for the current time and for
  every time \<^verbatim>\<open>Date.parse\<close> returns. Trimming twice is trimming once; a tag, which is
  a trimmed text put in lower case, stays as it is when it is trimmed and put in lower case
  once more; the two texts the sanitizer puts in by itself are trimmed.
\<close>

definition stable_dates :: "runtime \<Rightarrow> bool" where
  "stable_dates rt =
     ((\<forall>s t. Date_parse rt s = Some t \<longrightarrow> Date_parse rt (toISOString rt t) = Some t)
      \<and> Date_parse rt (toISOString rt (clock rt)) = Some (clock rt))"

definition stable_texts :: "runtime \<Rightarrow> bool" where
  "stable_texts rt =
     ((\<forall>s. trim rt (trim rt s) = trim rt s)
      \<and> (\<forall>s. toLowerCase rt (trim rt (toLowerCase rt (trim rt s))) = toLowerCase rt (trim rt s))
      \<and> trim rt placeholder = placeholder
      \<and> trim rt ''alloy'' = ''alloy'')"




section \<open>Example data\<close>

text \<open>
  A runtime for the examples, whose texts are all in ASCII. The clock stands at the
  second day of 1970; the conversions are given on the values the examples use. On a text
  in ASCII \<^verbatim>\<open>trim\<close> removes the six characters below at both ends and
  \<^verbatim>\<open>toLowerCase\<close> maps the letters from A to Z. The rounded sum is given as the exact
  one; the examples add integers only.
\<close>

definition ascii_space :: "char \<Rightarrow> bool" where
  "ascii_space c = (c \<in> set [CHR 0x09, CHR 0x0A, CHR 0x0B, CHR 0x0C, CHR 0x0D, CHR '' ''])"

definition ascii_trim :: "string \<Rightarrow> string" where
  "ascii_trim s = rev (dropWhile ascii_space (rev (dropWhile ascii_space s)))"

definition ascii_lower :: "char \<Rightarrow> char" where
  "ascii_lower c =
     (let n = of_char c :: nat in if 65 \<le> n \<and> n \<le> 90 then char_of (n + 32) else c)"

definition ascii_toLowerCase :: "string \<Rightarrow> string" where
  "ascii_toLowerCase s = map ascii_lower s"

definition sample_runtime :: runtime where
  "sample_runtime =
     \<lparr>str_to_num = (\<lambda>s. if s = ''3'' then Fin 3 else NaN),
      num_to_str = (\<lambda>n. if n = Fin 3 then ''3'' else ''NaN''),
      trim = ascii_trim,
      toLowerCase = ascii_toLowerCase,
      float_sum = (\<lambda>a b. Fin (a + b)),
      Date_parse = (\<lambda>s. if s = ''1970-01-01T00:00:00.000Z'' then Some 0
                         else if s = ''1970-01-02T00:00:00.000Z'' then Some 86400000
                         else None),
      toISOString = (\<lambda>t. if t = 0 then ''1970-01-01T00:00:00.000Z''
                          else ''1970-01-02T00:00:00.000Z''),
      clock = 86400000,
      randomUUID = (\<lambda>n. ''3f2c''),
      uid = (\<lambda>n. ''k3x9''),
      toRomaji = (\<lambda>s. s),
      generateEnglishSeedWords = (\<lambda>n.
        [\<lparr>seed_word = ''market'', seed_meaningZh = ''shichang'', seed_tags = [''news'']\<rparr>]),
      generateJapaneseSeedSentences = (\<lambda>n.
        [\<lparr>seed_sentence = ''ohayou'', seed_romaji = ''ohayou'',
          seed_sentence_meaningZh = ''zaoan'', seed_sentence_tags = [''greeting''],
          seed_vocabulary = [(''ohayou'', ''zaoan'')]\<rparr>])\<rparr>"

definition sample_words :: "EnglishWord list" where
  "sample_words =
     [\<lparr>item_id = ''en-1'', meaningZh = ''shichang'', tags = [''news'', ''business''],
       level = Fin 0, lastReviewedAt = None, word = ''market'', needsWork = False\<rparr>,
      \<lparr>item_id = ''en-2'', meaningZh = ''zhengce'', tags = [''news''],
       level = Fin 1, lastReviewedAt = Some ''1970-01-01T00:00:00.000Z'',
       word = ''policy'', needsWork = False\<rparr>,
      \<lparr>item_id = ''en-3'', meaningZh = ''pingguo'', tags = [''food''],
       level = Fin 2, lastReviewedAt = Some ''1970-01-01T00:00:00.000Z'',
       word = ''apple'', needsWork = False\<rparr>,
      \<lparr>item_id = ''en-4'', meaningZh = ''he'', tags = [''nature''],
       level = Fin 5, lastReviewedAt = Some ''yesterday'', word = ''river'', needsWork = False\<rparr>,
      \<lparr>item_id = ''en-5'', meaningZh = ''fangzi'', tags = [],
       level = Fin 5, lastReviewedAt = Some ''1970-01-02T00:00:00.000Z'',
       word = ''house'', needsWork = False\<rparr>]"

definition sample_sentences :: "JapaneseSentence list" where
  "sample_sentences =
     [\<lparr>item_id = ''ja-1'', meaningZh = ''zaoan'', tags = [''greeting''],
       level = Fin 0, lastReviewedAt = None, sentence = ''ohayou'', romaji = ''ohayou'',
       vocabulary = [\<lparr>vocab_word = ''ohayou'', vocab_meaningZh = ''zaoan''\<rparr>]\<rparr>,
      \<lparr>item_id = ''ja-2'', meaningZh = ''xiexie'', tags = [''news''],
       level = Fin 5, lastReviewedAt = Some ''1970-01-02T00:00:00.000Z'',
       sentence = ''arigatou'', romaji = ''arigatou'', vocabulary = []\<rparr>]"

text \<open>The values the variables of the client are declared with.\<close>

definition initial_client :: client where
  "initial_client =
     \<lparr>englishWords_g = [], japaneseSentences_g = [],
      englishGroup = ''due'', japaneseGroup = ''due'',
      englishReview = \<lparr>queue = [], index = 0, running = False, paused = False, runId = 0\<rparr>,
      japaneseReview = \<lparr>queue = [], index = 0, running = False, paused = False, runId = 0\<rparr>,
      englishAbort = None, japaneseAbort = None, controllers = 0, effects = []\<rparr>"

definition sample_client :: client where
  "sample_client =
     initial_client\<lparr>englishWords_g := sample_words, japaneseSentences_g := sample_sentences\<rparr>"

text \<open>
  A session of the vocabulary track started on the group \<^verbatim>\<open>due\<close>, and then the group
  \<^verbatim>\<open>needs-work\<close> chosen in the selector while the session plays.
\<close>

definition sample_playing :: client where
  "sample_playing = (fst (startEnglishReview sample_runtime sample_client))\<lparr>englishGroup := ''needs-work''\<rparr>"

text \<open>
  A session of the sentence track started on the group \<^verbatim>\<open>due\<close>, and then its only
  sentence marked as reviewed with the button of its row while the session plays.
\<close>

definition sample_playing_japanese :: client where
  "sample_playing_japanese = fst (startJapaneseReview sample_runtime sample_client)"

definition sample_marked_japanese :: client where
  "sample_marked_japanese = markJapaneseReviewed sample_runtime ''ja-1'' sample_playing_japanese"

text \<open>The first example word with the level 6, as an import or a client may send it.\<close>

definition sample_word_level_six :: EnglishWord where
  "sample_word_level_six = (sample_words ! 0)\<lparr>level := Fin 6\<rparr>"

text \<open>An item whose \<^verbatim>\<open>word\<close> is an object with a property \<^verbatim>\<open>toString\<close>.\<close>

definition sample_unprintable :: json where
  "sample_unprintable =
     JObj [(''englishWords'', JArr [JObj [(''word'', JObj [(''toString'', JNum (Fin 1))])]])]"






section \<open>Basic facts\<close>

lemma bindE_Inr [simp]: "bindE (Inr v) f = f v"
  by (simp add: bindE_def)

lemma bindE_Inl [simp]: "bindE (Inl e) f = Inl e"
  by (simp add: bindE_def)

lemma length_REVIEW_INTERVAL_DAYS [simp]: "length REVIEW_INTERVAL_DAYS = 6"
  by (simp add: REVIEW_INTERVAL_DAYS_def)

lemma maxLevel_eq: "maxLevel = Fin 5"
  by (simp add: maxLevel_def)

lemma bindE_eq_Inr: "(bindE m f = Inr y) = (\<exists>v. m = Inr v \<and> f v = Inr y)"
  by (cases m) simp_all

lemma emit_fields [simp]:
  "englishWords_g (emit e st) = englishWords_g st"
  "japaneseSentences_g (emit e st) = japaneseSentences_g st"
  "englishReview (emit e st) = englishReview st"
  "japaneseReview (emit e st) = japaneseReview st"
  "englishAbort (emit e st) = englishAbort st"
  "japaneseAbort (emit e st) = japaneseAbort st"
  "englishGroup (emit e st) = englishGroup st"
  "japaneseGroup (emit e st) = japaneseGroup st"
  "controllers (emit e st) = controllers st"
  by (simp_all add: emit_def)

section \<open>The scheduler\<close>

lemma waitDays_index:
  assumes "i < length REVIEW_INTERVAL_DAYS"
  shows "waitDays (Fin (real i)) = REVIEW_INTERVAL_DAYS ! i"
  using assms by (simp add: waitDays_def array_get_def)

lemma waitDays_beyond:
  assumes "real (length REVIEW_INTERVAL_DAYS) \<le> v"
  shows "waitDays (Fin v) = last REVIEW_INTERVAL_DAYS"
  using assms by (simp add: waitDays_def array_get_def REVIEW_INTERVAL_DAYS_def)

text \<open>
  C2. An item that was never reviewed, or whose \<^verbatim>\<open>lastReviewedAt\<close> is empty or does not
  parse, is due. Otherwise it is due exactly when the clock has reached the time of the
  last review plus the wait of its level, in days of 24 hours. The wait is the entry of
  the table \<open>[0, 1, 3, 7, 14, 30]\<close> at the level, and the last entry for every level
  from the length of the table on.
\<close>

theorem isDue_contract:
  "isDue rt l None
   \<and> isDue rt l (Some [])
   \<and> (Date_parse rt s = None \<longrightarrow> isDue rt l (Some s))
   \<and> (s \<noteq> [] \<and> Date_parse rt s = Some t \<longrightarrow>
        isDue rt l (Some s) = (t + waitDays l * 24 * 60 * 60 * 1000 \<le> clock rt))
   \<and> REVIEW_INTERVAL_DAYS = [0, 1, 3, 7, 14, 30]
   \<and> (i < length REVIEW_INTERVAL_DAYS \<longrightarrow> waitDays (Fin (real i)) = REVIEW_INTERVAL_DAYS ! i)
   \<and> (real (length REVIEW_INTERVAL_DAYS) \<le> v \<longrightarrow> waitDays (Fin v) = last REVIEW_INTERVAL_DAYS)"
proof -
  have due: "isDue rt l None" "isDue rt l (Some [])"
    by (simp_all add: isDue_def)
  have unparsed: "Date_parse rt s = None \<longrightarrow> isDue rt l (Some s)"
    by (simp add: isDue_def)
  have parsed: "s \<noteq> [] \<and> Date_parse rt s = Some t \<longrightarrow>
      isDue rt l (Some s) = (t + waitDays l * 24 * 60 * 60 * 1000 \<le> clock rt)"
    by (simp add: isDue_def)
  have table: "REVIEW_INTERVAL_DAYS = [0, 1, 3, 7, 14, 30]"
    by (simp add: REVIEW_INTERVAL_DAYS_def)
  show ?thesis
    using due unparsed parsed table waitDays_index [of i] waitDays_beyond [of v] by blast
qed

theorem isDue_contract_witness:
  "Date_parse sample_runtime ''yesterday'' = None
   \<and> isDue sample_runtime (Fin 1) (Some ''yesterday'')
   \<and> Date_parse sample_runtime ''1970-01-01T00:00:00.000Z'' = Some 0
   \<and> isDue sample_runtime (Fin 1) (Some ''1970-01-01T00:00:00.000Z'')
   \<and> \<not> isDue sample_runtime (Fin 2) (Some ''1970-01-01T00:00:00.000Z'')
   \<and> waitDays (Fin (real (2::nat))) = 3
   \<and> waitDays (Fin 7) = 30"
proof -
  have a: "Date_parse sample_runtime ''yesterday'' = None"
    by (simp add: sample_runtime_def)
  have b: "''1970-01-01T00:00:00.000Z'' \<noteq> []
      \<and> Date_parse sample_runtime ''1970-01-01T00:00:00.000Z'' = Some 0"
    by (simp add: sample_runtime_def)
  have c: "(2::nat) < length REVIEW_INTERVAL_DAYS" "real (length REVIEW_INTERVAL_DAYS) \<le> 7"
    by simp_all
  have d: "clock sample_runtime = 86400000"
    by (simp add: sample_runtime_def)
  have w1: "waitDays (Fin 1) = 1" and w2: "waitDays (Fin 2) = 3"
    by (simp_all add: waitDays_def array_get_def REVIEW_INTERVAL_DAYS_def)
  have e: "REVIEW_INTERVAL_DAYS ! 2 = 3" "last REVIEW_INTERVAL_DAYS = 30"
    by (simp_all add: REVIEW_INTERVAL_DAYS_def)
  show ?thesis
    using isDue_contract [of sample_runtime "Fin 1" "''yesterday''" 0 2 7]
      isDue_contract [of sample_runtime "Fin 1" "''1970-01-01T00:00:00.000Z''" 0 2 7]
      isDue_contract [of sample_runtime "Fin 2" "''1970-01-01T00:00:00.000Z''" 0 2 7]
      a b c d w1 w2 e
    by simp
qed

lemma safe_integer_small:
  "safe_integer 1" "safe_integer 2" "safe_integer 3" "safe_integer 4" "safe_integer 5"
  "safe_integer 6"
  by (simp_all add: safe_integer_def)

lemma safe_integer_nat:
  assumes "n \<le> 6"
  shows "safe_integer (real n)"
proof -
  have "real n \<le> 6"
    using assms by simp
  then have "\<bar>real n\<bar> \<le> 2 ^ 53"
    by simp
  then show ?thesis
    unfolding safe_integer_def by (simp only: floor_of_nat of_int_of_nat_eq simp_thms)
qed

lemma js_add_one:
  assumes "n \<le> 5"
  shows "js_add rt (Fin (real n)) (Fin 1) = Fin (real (n + 1))"
proof -
  have "safe_integer (real n)" "safe_integer (real (n + 1))"
    using assms by (simp_all only: safe_integer_nat)
  moreover have "real (n + 1) = real n + 1"
    by simp
  ultimately show ?thesis
    by (simp only: js_add.simps safe_integer_small simp_thms if_True)
qed

lemma Math_min_advance:
  assumes "n \<le> 5"
  shows "Math_min (js_add rt (Fin (real n)) (Fin 1)) maxLevel = Fin (real (min (n + 1) 5))"
  using assms by (simp only: js_add_one) (simp add: Math_min_def maxLevel_def min_def)

lemma englishWords_g_markEnglishReviewed:
  "englishWords_g (markEnglishReviewed rt i st) =
     map (\<lambda>item. if item_id item = i
            then item\<lparr>level := Math_min (js_add rt (level item) (Fin 1)) maxLevel,
                      lastReviewedAt := Some (toISOString rt (clock rt))\<rparr>
            else item) (englishWords_g st)"
  by (simp add: markEnglishReviewed_def)

lemma japaneseSentences_g_markJapaneseReviewed:
  "japaneseSentences_g (markJapaneseReviewed rt i st) =
     map (\<lambda>item. if item_id item = i
            then item\<lparr>level := Math_min (js_add rt (level item) (Fin 1)) maxLevel,
                      lastReviewedAt := Some (toISOString rt (clock rt))\<rparr>
            else item) (japaneseSentences_g st)"
  by (simp add: markJapaneseReviewed_def)

text \<open>
  C6. Marking an item as reviewed (\<^verbatim>\<open>markEnglishReviewed\<close>, \<^verbatim>\<open>markJapaneseReviewed\<close> on
  the identifier of the item at a position of the list) sets its \<^verbatim>\<open>lastReviewedAt\<close> to the
  current time and its level to \<^verbatim>\<open>Math.min(level + 1, 5)\<close>, 5 being the last index of the
  table. At a level of the schedule, an integer from 0 to 5, the new level is the minimum
  of the level plus one and 5: an item at the last index keeps its level, and no level
  goes down.
\<close>

theorem advance_contract:
  "(k < length (englishWords_g st) \<longrightarrow>
      lastReviewedAt (englishWords_g (markEnglishReviewed rt (item_id (englishWords_g st ! k)) st) ! k)
        = Some (toISOString rt (clock rt))
      \<and> level (englishWords_g (markEnglishReviewed rt (item_id (englishWords_g st ! k)) st) ! k)
        = Math_min (js_add rt (level (englishWords_g st ! k)) (Fin 1)) maxLevel
      \<and> (level (englishWords_g st ! k) = maxLevel \<longrightarrow>
           level (englishWords_g (markEnglishReviewed rt (item_id (englishWords_g st ! k)) st) ! k)
             = maxLevel)
      \<and> (level (englishWords_g st ! k) = Fin (real n) \<and> n \<le> 5 \<longrightarrow>
           level (englishWords_g (markEnglishReviewed rt (item_id (englishWords_g st ! k)) st) ! k)
             = Fin (real (min (n + 1) 5))
           \<and> js_le (level (englishWords_g st ! k))
                (level (englishWords_g (markEnglishReviewed rt (item_id (englishWords_g st ! k)) st) ! k))))
   \<and> (j < length (japaneseSentences_g st) \<longrightarrow>
      lastReviewedAt (japaneseSentences_g (markJapaneseReviewed rt (item_id (japaneseSentences_g st ! j)) st) ! j)
        = Some (toISOString rt (clock rt))
      \<and> level (japaneseSentences_g (markJapaneseReviewed rt (item_id (japaneseSentences_g st ! j)) st) ! j)
        = Math_min (js_add rt (level (japaneseSentences_g st ! j)) (Fin 1)) maxLevel
      \<and> (level (japaneseSentences_g st ! j) = maxLevel \<longrightarrow>
           level (japaneseSentences_g (markJapaneseReviewed rt (item_id (japaneseSentences_g st ! j)) st) ! j)
             = maxLevel)
      \<and> (level (japaneseSentences_g st ! j) = Fin (real m) \<and> m \<le> 5 \<longrightarrow>
           level (japaneseSentences_g (markJapaneseReviewed rt (item_id (japaneseSentences_g st ! j)) st) ! j)
             = Fin (real (min (m + 1) 5))
           \<and> js_le (level (japaneseSentences_g st ! j))
                (level (japaneseSentences_g (markJapaneseReviewed rt (item_id (japaneseSentences_g st ! j)) st) ! j))))
   \<and> maxLevel = Fin (real (length REVIEW_INTERVAL_DAYS - 1))"
proof -
  have top: "Math_min (js_add rt maxLevel (Fin 1)) maxLevel = maxLevel"
    using Math_min_advance [of 5 rt] by (simp add: maxLevel_eq)
  have up: "Math_min (js_add rt (Fin (real x)) (Fin 1)) maxLevel = Fin (real (min (x + 1) 5))
      \<and> js_le (Fin (real x)) (Fin (real (min (x + 1) 5)))" if "x \<le> 5" for x
    using that Math_min_advance [of x rt] by simp
  have en: "k < length (englishWords_g st) \<Longrightarrow>
      englishWords_g (markEnglishReviewed rt (item_id (englishWords_g st ! k)) st) ! k
        = (englishWords_g st ! k)
            \<lparr>level := Math_min (js_add rt (level (englishWords_g st ! k)) (Fin 1)) maxLevel,
             lastReviewedAt := Some (toISOString rt (clock rt))\<rparr>"
    by (simp add: englishWords_g_markEnglishReviewed)
  have ja: "j < length (japaneseSentences_g st) \<Longrightarrow>
      japaneseSentences_g (markJapaneseReviewed rt (item_id (japaneseSentences_g st ! j)) st) ! j
        = (japaneseSentences_g st ! j)
            \<lparr>level := Math_min (js_add rt (level (japaneseSentences_g st ! j)) (Fin 1)) maxLevel,
             lastReviewedAt := Some (toISOString rt (clock rt))\<rparr>"
    by (simp add: japaneseSentences_g_markJapaneseReviewed)
  have m: "maxLevel = Fin (real (length REVIEW_INTERVAL_DAYS - 1))"
    by (simp add: maxLevel_def)
  show ?thesis
    using en ja top up [of n] up [of m] m by auto
qed

theorem advance_contract_witness:
  "(1::nat) < length (englishWords_g sample_client)
   \<and> level (englishWords_g sample_client ! 1) = Fin (real (1::nat))
   \<and> level (englishWords_g (markEnglishReviewed sample_runtime ''en-2'' sample_client) ! 1) = Fin 2
   \<and> lastReviewedAt (englishWords_g (markEnglishReviewed sample_runtime ''en-2'' sample_client) ! 1)
       = Some ''1970-01-02T00:00:00.000Z''
   \<and> (1::nat) < length (japaneseSentences_g sample_client)
   \<and> level (japaneseSentences_g sample_client ! 1) = maxLevel
   \<and> level (japaneseSentences_g (markJapaneseReviewed sample_runtime ''ja-2'' sample_client) ! 1)
       = Fin 5"
proof -
  have a: "(1::nat) < length (englishWords_g sample_client)"
    "(1::nat) < length (japaneseSentences_g sample_client)"
    by (simp_all add: sample_client_def sample_words_def sample_sentences_def)
  have b: "level (englishWords_g sample_client ! 1) = Fin (real (1::nat))"
    "item_id (englishWords_g sample_client ! 1) = ''en-2''"
    "level (japaneseSentences_g sample_client ! 1) = Fin (real (5::nat))"
    "item_id (japaneseSentences_g sample_client ! 1) = ''ja-2''"
    by (simp_all add: sample_client_def sample_words_def sample_sentences_def)
  have c: "toISOString sample_runtime (clock sample_runtime) = ''1970-01-02T00:00:00.000Z''"
    by (simp add: sample_runtime_def)
  have d: "(1::nat) \<le> 5" "(5::nat) \<le> 5"
    by simp_all
  show ?thesis
    using advance_contract [of 1 sample_client sample_runtime 1 1 5] a b c d
    by (simp add: maxLevel_eq safe_integer_small Math_min_def)
qed

section \<open>Grouping\<close>

text \<open>
  C9. The selection by group is the whole list for \<^verbatim>\<open>all\<close>, the due items for
  \<^verbatim>\<open>due\<close>, the flagged words for \<^verbatim>\<open>needs-work\<close> on the vocabulary track, the items
  that carry the tag for \<^verbatim>\<open>tag:\<close> followed by the name of a tag, and the whole list for
  every other key; the selection keeps the order of the list.
\<close>

theorem selectGroup_contract:
  "getEnglishQueueByGroup rt ''all'' st = englishWords_g st
   \<and> getEnglishQueueByGroup rt ''due'' st
       = filter (\<lambda>item. isDue rt (level item) (lastReviewedAt item)) (englishWords_g st)
   \<and> getEnglishQueueByGroup rt ''needs-work'' st = filter needsWork (englishWords_g st)
   \<and> getEnglishQueueByGroup rt (''tag:'' @ name) st
       = filter (\<lambda>item. name \<in> set (tags item)) (englishWords_g st)
   \<and> (grp \<noteq> ''all'' \<and> grp \<noteq> ''due'' \<and> grp \<noteq> ''needs-work'' \<and> \<not> startsWith grp ''tag:'' \<longrightarrow>
        getEnglishQueueByGroup rt grp st = englishWords_g st)
   \<and> subseq (getEnglishQueueByGroup rt grp st) (englishWords_g st)
   \<and> getJapaneseQueueByGroup rt ''all'' st = japaneseSentences_g st
   \<and> getJapaneseQueueByGroup rt ''due'' st
       = filter (\<lambda>item. isDue rt (level item) (lastReviewedAt item)) (japaneseSentences_g st)
   \<and> getJapaneseQueueByGroup rt (''tag:'' @ name) st
       = filter (\<lambda>item. name \<in> set (tags item)) (japaneseSentences_g st)
   \<and> (grp \<noteq> ''all'' \<and> grp \<noteq> ''due'' \<and> \<not> startsWith grp ''tag:'' \<longrightarrow>
        getJapaneseQueueByGroup rt grp st = japaneseSentences_g st)
   \<and> subseq (getJapaneseQueueByGroup rt grp st) (japaneseSentences_g st)"
proof -
  have tag_en: "getEnglishQueueByGroup rt (''tag:'' @ name) st
       = filter (\<lambda>item. name \<in> set (tags item)) (englishWords_g st)"
    by (simp add: getEnglishQueueByGroup_def startsWith_def)
  have tag_ja: "getJapaneseQueueByGroup rt (''tag:'' @ name) st
       = filter (\<lambda>item. name \<in> set (tags item)) (japaneseSentences_g st)"
    by (simp add: getJapaneseQueueByGroup_def startsWith_def)
  have fixed_en: "getEnglishQueueByGroup rt ''all'' st = englishWords_g st"
    "getEnglishQueueByGroup rt ''due'' st
       = filter (\<lambda>item. isDue rt (level item) (lastReviewedAt item)) (englishWords_g st)"
    "getEnglishQueueByGroup rt ''needs-work'' st = filter needsWork (englishWords_g st)"
    by (simp_all add: getEnglishQueueByGroup_def)
  have fixed_ja: "getJapaneseQueueByGroup rt ''all'' st = japaneseSentences_g st"
    "getJapaneseQueueByGroup rt ''due'' st
       = filter (\<lambda>item. isDue rt (level item) (lastReviewedAt item)) (japaneseSentences_g st)"
    by (simp_all add: getJapaneseQueueByGroup_def)
  have other_en: "grp \<noteq> ''all'' \<and> grp \<noteq> ''due'' \<and> grp \<noteq> ''needs-work'' \<and> \<not> startsWith grp ''tag:'' \<longrightarrow>
        getEnglishQueueByGroup rt grp st = englishWords_g st"
    by (simp add: getEnglishQueueByGroup_def)
  have other_ja: "grp \<noteq> ''all'' \<and> grp \<noteq> ''due'' \<and> \<not> startsWith grp ''tag:'' \<longrightarrow>
        getJapaneseQueueByGroup rt grp st = japaneseSentences_g st"
    by (simp add: getJapaneseQueueByGroup_def)
  have sub: "subseq (getEnglishQueueByGroup rt grp st) (englishWords_g st)"
    "subseq (getJapaneseQueueByGroup rt grp st) (japaneseSentences_g st)"
    by (simp_all only: getEnglishQueueByGroup_def getJapaneseQueueByGroup_def subseq_filter_left)
  show ?thesis
    using tag_en tag_ja fixed_en fixed_ja other_en other_ja sub by blast
qed

theorem selectGroup_contract_witness:
  "''shuffle'' \<noteq> ''all'' \<and> ''shuffle'' \<noteq> ''due'' \<and> ''shuffle'' \<noteq> ''needs-work''
   \<and> \<not> startsWith ''shuffle'' ''tag:''
   \<and> getEnglishQueueByGroup sample_runtime ''shuffle'' sample_client = sample_words
   \<and> getJapaneseQueueByGroup sample_runtime ''shuffle'' sample_client = sample_sentences
   \<and> length (englishWords_g sample_client) = 5
   \<and> getEnglishQueueByGroup sample_runtime ''tag:news'' sample_client
       = [sample_words ! 0, sample_words ! 1]"
proof -
  have a: "''shuffle'' \<noteq> ''all'' \<and> ''shuffle'' \<noteq> ''due'' \<and> ''shuffle'' \<noteq> ''needs-work''
      \<and> \<not> startsWith ''shuffle'' ''tag:''"
    by (simp add: startsWith_def)
  have b: "englishWords_g sample_client = sample_words"
    "japaneseSentences_g sample_client = sample_sentences"
    by (simp_all add: sample_client_def)
  have c: "filter (\<lambda>item. ''news'' \<in> set (tags item)) sample_words
      = [sample_words ! 0, sample_words ! 1]"
    by (simp add: sample_words_def)
  have d: "length sample_words = 5"
    by (simp add: sample_words_def)
  show ?thesis
    using selectGroup_contract [of sample_runtime sample_client "''news''" "''shuffle''"] a b c d
    by simp
qed

section \<open>The playback queue\<close>

lemma englishReview_stopEnglishReview:
  "englishReview (stopEnglishReview b st) =
     (englishReview st)\<lparr>queue := [], index := 0, running := False, paused := False,
        runId := runId (englishReview st) + 1\<rparr>"
  by (simp add: stopEnglishReview_def Let_def split: option.splits)

lemma japaneseReview_stopJapaneseReview:
  "japaneseReview (stopJapaneseReview b st) =
     (japaneseReview st)\<lparr>queue := [], index := 0, running := False, paused := False,
        runId := runId (japaneseReview st) + 1\<rparr>"
  by (simp add: stopJapaneseReview_def Let_def split: option.splits)

lemma resumeEnglishReview_stale:
  assumes "runId (englishReview st) \<noteq> rid"
  shows "resumeEnglishReview rt rid aw st = (st, Returned)"
  using assms by (cases aw) (simp_all add: resumeEnglishReview_def runEnglishReview_body_def)

lemma resumeJapaneseReview_stale:
  assumes "runId (japaneseReview st) \<noteq> rid"
  shows "resumeJapaneseReview rt rid aw st = (st, Returned)"
  using assms by (cases aw) (simp_all add: resumeJapaneseReview_def runJapaneseReview_body_def)

text \<open>
  C5. Stopping a track makes its run identifier strictly greater. A drive loop that is
  resumed after an \<^verbatim>\<open>await\<close> with a run identifier other than the current one of its
  track returns and leaves the whole state as it is: no item is marked as reviewed and
  the cursor does not move. In particular this holds for a loop started before the stop.
\<close>

theorem stop_invalidates_drive_loop:
  "runId (englishReview st) < runId (englishReview (stopEnglishReview b st))
   \<and> runId (japaneseReview st) < runId (japaneseReview (stopJapaneseReview b st))
   \<and> (runId (englishReview st) \<noteq> rid \<longrightarrow> resumeEnglishReview rt rid aw st = (st, Returned))
   \<and> (runId (japaneseReview st) \<noteq> rid \<longrightarrow> resumeJapaneseReview rt rid aw' st = (st, Returned))
   \<and> resumeEnglishReview rt (runId (englishReview st)) aw (stopEnglishReview b st)
       = (stopEnglishReview b st, Returned)
   \<and> resumeJapaneseReview rt (runId (japaneseReview st)) aw' (stopJapaneseReview b st)
       = (stopJapaneseReview b st, Returned)"
proof -
  have en: "runId (englishReview (stopEnglishReview b st)) = runId (englishReview st) + 1"
    by (simp add: englishReview_stopEnglishReview)
  have ja: "runId (japaneseReview (stopJapaneseReview b st)) = runId (japaneseReview st) + 1"
    by (simp add: japaneseReview_stopJapaneseReview)
  have "resumeEnglishReview rt (runId (englishReview st)) aw (stopEnglishReview b st)
       = (stopEnglishReview b st, Returned)"
    by (rule resumeEnglishReview_stale) (simp add: en)
  moreover have "resumeJapaneseReview rt (runId (japaneseReview st)) aw' (stopJapaneseReview b st)
       = (stopJapaneseReview b st, Returned)"
    by (rule resumeJapaneseReview_stale) (simp add: ja)
  ultimately show ?thesis
    using en ja resumeEnglishReview_stale [of st rid rt aw]
      resumeJapaneseReview_stale [of st rid rt aw'] by simp
qed

theorem stop_invalidates_drive_loop_witness:
  "runId (englishReview (stopEnglishReview True sample_playing)) \<noteq> 1
   \<and> resumeEnglishReview sample_runtime 1 (AwaitSpeak (sample_words ! 0))
         (stopEnglishReview True sample_playing)
       = (stopEnglishReview True sample_playing, Returned)
   \<and> runId (japaneseReview (stopJapaneseReview True sample_playing_japanese)) \<noteq> 1
   \<and> resumeJapaneseReview sample_runtime 1 AwaitSleep
         (stopJapaneseReview True sample_playing_japanese)
       = (stopJapaneseReview True sample_playing_japanese, Returned)
   \<and> runId (englishReview sample_playing) = 1
   \<and> runId (englishReview (stopEnglishReview True sample_playing)) = 2"
proof -
  have a: "runId (englishReview sample_playing) = 1"
    by code_simp
  have b: "runId (japaneseReview sample_playing_japanese) = 1"
    by code_simp
  have c: "runId (englishReview (stopEnglishReview True sample_playing)) = 2"
    using a by (simp add: englishReview_stopEnglishReview)
  have d: "runId (japaneseReview (stopJapaneseReview True sample_playing_japanese)) = 2"
    using b by (simp add: japaneseReview_stopJapaneseReview)
  show ?thesis
    using stop_invalidates_drive_loop
        [of "stopEnglishReview True sample_playing" True 1 sample_runtime
          "AwaitSpeak (sample_words ! 0)" AwaitSleep]
      stop_invalidates_drive_loop
        [of "stopJapaneseReview True sample_playing_japanese" True 1 sample_runtime
          "AwaitSpeak (sample_words ! 0)" AwaitSleep]
      a c d
    by simp
qed

lemma englishReview_runEnglishReview_body:
  "englishReview (fst (runEnglishReview_body rid st)) = englishReview st"
  by (simp add: runEnglishReview_body_def Let_def)

lemma japaneseReview_runJapaneseReview_body:
  "japaneseReview (fst (runJapaneseReview_body rid st)) = japaneseReview st"
  by (simp add: runJapaneseReview_body_def Let_def)

lemma shiftEnglishReview_idle:
  assumes "\<not> running (englishReview st) \<or> queue (englishReview st) = []"
  shows "shiftEnglishReview step st = (st, Returned)"
  using assms by (auto simp add: shiftEnglishReview_def)

lemma shiftJapaneseReview_idle:
  assumes "\<not> running (japaneseReview st) \<or> queue (japaneseReview st) = []"
  shows "shiftJapaneseReview step st = (st, Returned)"
  using assms by (auto simp add: shiftJapaneseReview_def)

lemma clampNumber_int_range:
  assumes "lo \<le> hi"
  shows "lo \<le> clampNumber_int v lo hi \<and> clampNumber_int v lo hi \<le> hi"
  using assms by (simp add: clampNumber_int_def)

lemma shiftEnglishReview_running:
  assumes "running (englishReview st)" and "queue (englishReview st) \<noteq> []"
  shows "englishReview (fst (shiftEnglishReview step st)) =
     (englishReview st)
       \<lparr>index := clampNumber_int (index (englishReview st) + step) 0
                   (int (length (queue (englishReview st))) - 1),
        paused := False, runId := runId (englishReview st) + 1\<rparr>"
proof -
  have "0 \<le> int (length (queue (englishReview st))) - 1"
    using assms(2) by (cases "queue (englishReview st)") simp_all
  then have "clampNumber_int (index (englishReview st) + step) 0
      (int (length (queue (englishReview st))) - 1) < int (length (queue (englishReview st)))"
    by (simp add: clampNumber_int_def)
  then show ?thesis
    using assms
    by (simp add: shiftEnglishReview_def runEnglishReview_def Let_def
        englishReview_runEnglishReview_body split: option.splits)
qed

lemma shiftJapaneseReview_running:
  assumes "running (japaneseReview st)" and "queue (japaneseReview st) \<noteq> []"
  shows "japaneseReview (fst (shiftJapaneseReview step st)) =
     (japaneseReview st)
       \<lparr>index := clampNumber_int (index (japaneseReview st) + step) 0
                   (int (length (queue (japaneseReview st))) - 1),
        paused := False, runId := runId (japaneseReview st) + 1\<rparr>"
proof -
  have "0 \<le> int (length (queue (japaneseReview st))) - 1"
    using assms(2) by (cases "queue (japaneseReview st)") simp_all
  then have "clampNumber_int (index (japaneseReview st) + step) 0
      (int (length (queue (japaneseReview st))) - 1) < int (length (queue (japaneseReview st)))"
    by (simp add: clampNumber_int_def)
  then show ?thesis
    using assms
    by (simp add: shiftJapaneseReview_def runJapaneseReview_def Let_def
        japaneseReview_runJapaneseReview_body split: option.splits)
qed

text \<open>
  C7. A skip (\<^verbatim>\<open>shiftEnglishReview\<close>, \<^verbatim>\<open>shiftJapaneseReview\<close>) changes nothing when the
  track is not running or its queue is empty. On a running track it sets the cursor to
  the cursor plus the step clamped between 0 and the last index of the queue, so a step
  back at 0 stays at 0 and a step forward at the last index stays there, and it
  increments the run identifier.
\<close>

theorem shift_clamps_cursor:
  "(\<not> running (englishReview st) \<or> queue (englishReview st) = [] \<longrightarrow>
      shiftEnglishReview step st = (st, Returned))
   \<and> (\<not> running (japaneseReview st) \<or> queue (japaneseReview st) = [] \<longrightarrow>
      shiftJapaneseReview step st = (st, Returned))
   \<and> (running (englishReview st) \<and> queue (englishReview st) \<noteq> [] \<longrightarrow>
      index (englishReview (fst (shiftEnglishReview step st)))
        = max 0 (min (int (length (queue (englishReview st))) - 1) (index (englishReview st) + step))
      \<and> 0 \<le> index (englishReview (fst (shiftEnglishReview step st)))
      \<and> index (englishReview (fst (shiftEnglishReview step st)))
            \<le> int (length (queue (englishReview st))) - 1
      \<and> runId (englishReview (fst (shiftEnglishReview step st))) = runId (englishReview st) + 1
      \<and> queue (englishReview (fst (shiftEnglishReview step st))) = queue (englishReview st)
      \<and> (index (englishReview st) = 0 \<longrightarrow>
            index (englishReview (fst (shiftEnglishReview (- 1) st))) = 0)
      \<and> (index (englishReview st) = int (length (queue (englishReview st))) - 1 \<longrightarrow>
            index (englishReview (fst (shiftEnglishReview 1 st)))
              = int (length (queue (englishReview st))) - 1))
   \<and> (running (japaneseReview st) \<and> queue (japaneseReview st) \<noteq> [] \<longrightarrow>
      index (japaneseReview (fst (shiftJapaneseReview step st)))
        = max 0 (min (int (length (queue (japaneseReview st))) - 1) (index (japaneseReview st) + step))
      \<and> 0 \<le> index (japaneseReview (fst (shiftJapaneseReview step st)))
      \<and> index (japaneseReview (fst (shiftJapaneseReview step st)))
            \<le> int (length (queue (japaneseReview st))) - 1
      \<and> runId (japaneseReview (fst (shiftJapaneseReview step st))) = runId (japaneseReview st) + 1
      \<and> queue (japaneseReview (fst (shiftJapaneseReview step st))) = queue (japaneseReview st)
      \<and> (index (japaneseReview st) = 0 \<longrightarrow>
            index (japaneseReview (fst (shiftJapaneseReview (- 1) st))) = 0)
      \<and> (index (japaneseReview st) = int (length (queue (japaneseReview st))) - 1 \<longrightarrow>
            index (japaneseReview (fst (shiftJapaneseReview 1 st)))
              = int (length (queue (japaneseReview st))) - 1))"
proof -
  have english: "index (englishReview (fst (shiftEnglishReview k st)))
        = max 0 (min (int (length (queue (englishReview st))) - 1) (index (englishReview st) + k))
      \<and> runId (englishReview (fst (shiftEnglishReview k st))) = runId (englishReview st) + 1
      \<and> queue (englishReview (fst (shiftEnglishReview k st))) = queue (englishReview st)"
    if "running (englishReview st)" "queue (englishReview st) \<noteq> []" for k
    using shiftEnglishReview_running [OF that, of k] by (simp add: clampNumber_int_def)
  have japanese: "index (japaneseReview (fst (shiftJapaneseReview k st)))
        = max 0 (min (int (length (queue (japaneseReview st))) - 1) (index (japaneseReview st) + k))
      \<and> runId (japaneseReview (fst (shiftJapaneseReview k st))) = runId (japaneseReview st) + 1
      \<and> queue (japaneseReview (fst (shiftJapaneseReview k st))) = queue (japaneseReview st)"
    if "running (japaneseReview st)" "queue (japaneseReview st) \<noteq> []" for k
    using shiftJapaneseReview_running [OF that, of k] by (simp add: clampNumber_int_def)
  have len_en: "0 \<le> int (length (queue (englishReview st))) - 1"
    if "queue (englishReview st) \<noteq> []"
    using that by (cases "queue (englishReview st)") simp_all
  have len_ja: "0 \<le> int (length (queue (japaneseReview st))) - 1"
    if "queue (japaneseReview st) \<noteq> []"
    using that by (cases "queue (japaneseReview st)") simp_all
  have idle_en: "\<not> running (englishReview st) \<or> queue (englishReview st) = [] \<longrightarrow>
      shiftEnglishReview step st = (st, Returned)"
    using shiftEnglishReview_idle [of st step] by blast
  have idle_ja: "\<not> running (japaneseReview st) \<or> queue (japaneseReview st) = [] \<longrightarrow>
      shiftJapaneseReview step st = (st, Returned)"
    using shiftJapaneseReview_idle [of st step] by blast
  have run_en: "running (englishReview st) \<and> queue (englishReview st) \<noteq> [] \<longrightarrow>
      index (englishReview (fst (shiftEnglishReview step st)))
        = max 0 (min (int (length (queue (englishReview st))) - 1) (index (englishReview st) + step))
      \<and> 0 \<le> index (englishReview (fst (shiftEnglishReview step st)))
      \<and> index (englishReview (fst (shiftEnglishReview step st)))
            \<le> int (length (queue (englishReview st))) - 1
      \<and> runId (englishReview (fst (shiftEnglishReview step st))) = runId (englishReview st) + 1
      \<and> queue (englishReview (fst (shiftEnglishReview step st))) = queue (englishReview st)
      \<and> (index (englishReview st) = 0 \<longrightarrow>
            index (englishReview (fst (shiftEnglishReview (- 1) st))) = 0)
      \<and> (index (englishReview st) = int (length (queue (englishReview st))) - 1 \<longrightarrow>
            index (englishReview (fst (shiftEnglishReview 1 st)))
              = int (length (queue (englishReview st))) - 1)"
    using english [of step] english [of "- 1"] english [of 1] len_en by auto
  have run_ja: "running (japaneseReview st) \<and> queue (japaneseReview st) \<noteq> [] \<longrightarrow>
      index (japaneseReview (fst (shiftJapaneseReview step st)))
        = max 0 (min (int (length (queue (japaneseReview st))) - 1) (index (japaneseReview st) + step))
      \<and> 0 \<le> index (japaneseReview (fst (shiftJapaneseReview step st)))
      \<and> index (japaneseReview (fst (shiftJapaneseReview step st)))
            \<le> int (length (queue (japaneseReview st))) - 1
      \<and> runId (japaneseReview (fst (shiftJapaneseReview step st))) = runId (japaneseReview st) + 1
      \<and> queue (japaneseReview (fst (shiftJapaneseReview step st))) = queue (japaneseReview st)
      \<and> (index (japaneseReview st) = 0 \<longrightarrow>
            index (japaneseReview (fst (shiftJapaneseReview (- 1) st))) = 0)
      \<and> (index (japaneseReview st) = int (length (queue (japaneseReview st))) - 1 \<longrightarrow>
            index (japaneseReview (fst (shiftJapaneseReview 1 st)))
              = int (length (queue (japaneseReview st))) - 1)"
    using japanese [of step] japanese [of "- 1"] japanese [of 1] len_ja by auto
  show ?thesis
    using idle_en idle_ja run_en run_ja by blast
qed

theorem shift_clamps_cursor_witness:
  "running (englishReview sample_playing) \<and> queue (englishReview sample_playing) \<noteq> []
   \<and> index (englishReview sample_playing) = 0
   \<and> index (englishReview (fst (shiftEnglishReview (- 1) sample_playing))) = 0
   \<and> runId (englishReview (fst (shiftEnglishReview (- 1) sample_playing)))
       = runId (englishReview sample_playing) + 1
   \<and> \<not> running (japaneseReview sample_playing)
   \<and> shiftJapaneseReview (- 1) sample_playing = (sample_playing, Returned)
   \<and> running (japaneseReview sample_playing_japanese)
   \<and> queue (japaneseReview sample_playing_japanese) \<noteq> []
   \<and> index (japaneseReview sample_playing_japanese)
       = int (length (queue (japaneseReview sample_playing_japanese))) - 1
   \<and> index (japaneseReview (fst (shiftJapaneseReview 1 sample_playing_japanese)))
       = int (length (queue (japaneseReview sample_playing_japanese))) - 1"
proof -
  have a: "running (englishReview sample_playing)"
    "queue (englishReview sample_playing) \<noteq> []"
    "index (englishReview sample_playing) = 0"
    "\<not> running (japaneseReview sample_playing)"
    by code_simp+
  have b: "running (japaneseReview sample_playing_japanese)"
    "queue (japaneseReview sample_playing_japanese) \<noteq> []"
    "index (japaneseReview sample_playing_japanese)
       = int (length (queue (japaneseReview sample_playing_japanese))) - 1"
    by code_simp+
  show ?thesis
    using shift_clamps_cursor [of sample_playing "- 1"]
      shift_clamps_cursor [of sample_playing_japanese 1] a b
    by simp
qed

text \<open>
  C4. Starting a track whose group selects nothing should leave the running flag and the
  queue of the track as they are. \<^verbatim>\<open>startEnglishReview\<close> and \<^verbatim>\<open>startJapaneseReview\<close>
  assign the selection to the queue before they test it: on a track that is playing, the
  queue is emptied while the running flag stays set.
\<close>

theorem start_on_empty_group_clears_queue:
  "running (englishReview sample_playing)
   \<and> queue (englishReview sample_playing) = [sample_words ! 0, sample_words ! 1, sample_words ! 3]
   \<and> getEnglishQueueByGroup sample_runtime (englishGroup sample_playing) sample_playing = []
   \<and> queue (englishReview (fst (startEnglishReview sample_runtime sample_playing))) = []
   \<and> running (englishReview (fst (startEnglishReview sample_runtime sample_playing)))
   \<and> running (japaneseReview sample_marked_japanese)
   \<and> queue (japaneseReview sample_marked_japanese) = [sample_sentences ! 0]
   \<and> getJapaneseQueueByGroup sample_runtime (japaneseGroup sample_marked_japanese)
        sample_marked_japanese = []
   \<and> queue (japaneseReview (fst (startJapaneseReview sample_runtime sample_marked_japanese))) = []
   \<and> running (japaneseReview (fst (startJapaneseReview sample_runtime sample_marked_japanese)))"
  by code_simp

section \<open>The sanitizer\<close>

lemma sanitizeEnglishWord_lastReviewedAt:
  assumes "sanitizeEnglishWord rt raw i = Inr (Some w)"
  shows "lastReviewedAt w = (case get raw ''lastReviewedAt'' of JStr s \<Rightarrow> Some s | _ \<Rightarrow> None)"
  using assms
  by (auto simp add: sanitizeEnglishWord_def bindE_eq_Inr split: if_splits)

lemma sanitizeJapaneseSentence_lastReviewedAt:
  assumes "sanitizeJapaneseSentence rt raw i = Inr (Some w)"
  shows "lastReviewedAt w = (case get raw ''lastReviewedAt'' of JStr s \<Rightarrow> Some s | _ \<Rightarrow> None)"
  using assms
  by (auto simp add: sanitizeJapaneseSentence_def bindE_eq_Inr Let_def split: if_splits)

text \<open>
  C10. The sanitizer of the server keeps a \<^verbatim>\<open>lastReviewedAt\<close> that is a string as it is,
  whether or not it parses as a time, and gives \<^verbatim>\<open>null\<close> for every other value. A string
  that does not parse makes the item due at every level.
\<close>

theorem lastReviewedAt_kept_verbatim:
  "(sanitizeEnglishWord rt raw i = Inr (Some w) \<longrightarrow>
      lastReviewedAt w = (case get raw ''lastReviewedAt'' of JStr s \<Rightarrow> Some s | _ \<Rightarrow> None))
   \<and> (sanitizeJapaneseSentence rt raw i = Inr (Some x) \<longrightarrow>
      lastReviewedAt x = (case get raw ''lastReviewedAt'' of JStr s \<Rightarrow> Some s | _ \<Rightarrow> None))
   \<and> (Date_parse rt d = None \<longrightarrow> isDue rt l (Some d))"
  using sanitizeEnglishWord_lastReviewedAt [of rt raw i w]
    sanitizeJapaneseSentence_lastReviewedAt [of rt raw i x]
  by (simp add: isDue_def)

theorem lastReviewedAt_kept_verbatim_witness:
  "sanitizeEnglishWord sample_runtime
       (JObj [(''word'', JStr ''river''), (''lastReviewedAt'', JStr ''yesterday'')]) 0
     = Inr (Some \<lparr>item_id = ''en-0-3f2c'', meaningZh = placeholder, tags = [], level = Fin 0,
                  lastReviewedAt = Some ''yesterday'', word = ''river'', needsWork = False\<rparr>)
   \<and> sanitizeJapaneseSentence sample_runtime
       (JObj [(''sentence'', JStr ''ohayou''), (''lastReviewedAt'', JNum (Fin 3))]) 0
     = Inr (Some \<lparr>item_id = ''ja-0-3f2c'', meaningZh = placeholder, tags = [], level = Fin 0,
                  lastReviewedAt = None, sentence = ''ohayou'', romaji = ''ohayou'',
                  vocabulary = []\<rparr>)
   \<and> Date_parse sample_runtime ''yesterday'' = None
   \<and> isDue sample_runtime (Fin 0) (Some ''yesterday'')"
proof -
  have a: "sanitizeEnglishWord sample_runtime
       (JObj [(''word'', JStr ''river''), (''lastReviewedAt'', JStr ''yesterday'')]) 0
     = Inr (Some \<lparr>item_id = ''en-0-3f2c'', meaningZh = placeholder, tags = [], level = Fin 0,
                  lastReviewedAt = Some ''yesterday'', word = ''river'', needsWork = False\<rparr>)"
    by code_simp
  have b: "sanitizeJapaneseSentence sample_runtime
       (JObj [(''sentence'', JStr ''ohayou''), (''lastReviewedAt'', JNum (Fin 3))]) 0
     = Inr (Some \<lparr>item_id = ''ja-0-3f2c'', meaningZh = placeholder, tags = [], level = Fin 0,
                  lastReviewedAt = None, sentence = ''ohayou'', romaji = ''ohayou'',
                  vocabulary = []\<rparr>)"
    by code_simp
  have c: "Date_parse sample_runtime ''yesterday'' = None"
    by (simp add: sample_runtime_def)
  show ?thesis
    using lastReviewedAt_kept_verbatim
        [of sample_runtime "JObj [(''word'', JStr ''river''), (''lastReviewedAt'', JStr ''yesterday'')]"
          0 _ _ "''yesterday''" "Fin 0"] a b c
    by simp
qed

text \<open>
  C1. The level of a sanitized item should lie between 0 and the last index of the
  interval table, 5, and the server and the client should clamp it alike. The server
  clamps to the bound 6: a word sent with the level 6 is stored with the level 6, and the
  normalizer of the client turns that stored word into one of level 5.
\<close>

theorem server_level_six:
  "sanitizeEnglishWord sample_runtime (json_of_EnglishWord sample_word_level_six) 0
     = Inr (Some sample_word_level_six)
   \<and> level sample_word_level_six = Fin 6
   \<and> maxLevel = Fin 5
   \<and> map level (normalizeEnglishWords sample_runtime [sample_word_level_six]) = [Fin 5]"
  by code_simp

theorem server_level_six_witness:
  "map level (normalizeEnglishWords sample_runtime [sample_word_level_six])
     \<noteq> [level sample_word_level_six]"
proof -
  have "level sample_word_level_six = Fin 6"
    and "map level (normalizeEnglishWords sample_runtime [sample_word_level_six]) = [Fin 5]"
    using server_level_six by blast+
  then show ?thesis
    by simp
qed

text \<open>
  C3. \<^verbatim>\<open>sanitizeUserData\<close> should return a record for every input. On a word that is an
  object with a property \<^verbatim>\<open>toString\<close> the conversion \<^verbatim>\<open>String(source.word ?? '')\<close>
  throws, and the sanitizer with it.
\<close>

theorem sanitizeUserData_throws:
  "sanitizeUserData rt sample_unprintable = Inl TypeError"
  by (simp add: sanitizeUserData_def sample_unprintable_def sanitizeEnglishWord_def)

section \<open>A second pass of the sanitizer\<close>

text \<open>The runtime of the examples has the properties of texts that a second pass uses.\<close>

lemma ascii_space_code: "ascii_space c = (of_char c \<in> {9, 10, 11, 12, 13, 32 :: nat})"
proof -
  have "(c = d) = (of_char c = (of_char d :: nat))" for d
    by simp
  then show ?thesis
    unfolding ascii_space_def by (simp del: of_char_eq_iff)
qed

lemma ascii_lower_idem [simp]: "ascii_lower (ascii_lower c) = ascii_lower c"
  by (simp add: ascii_lower_def Let_def)

lemma ascii_space_lower [simp]: "ascii_space (ascii_lower c) = ascii_space c"
  by (auto simp add: ascii_space_code ascii_lower_def Let_def)

lemma ascii_toLowerCase_idem [simp]:
  "ascii_toLowerCase (ascii_toLowerCase s) = ascii_toLowerCase s"
  by (simp add: ascii_toLowerCase_def)

lemma ascii_trim_toLowerCase: "ascii_trim (ascii_toLowerCase s) = ascii_toLowerCase (ascii_trim s)"
proof -
  have "ascii_space \<circ> ascii_lower = ascii_space"
    by (rule ext) simp
  then show ?thesis
    by (simp add: ascii_trim_def ascii_toLowerCase_def dropWhile_map rev_map)
qed

lemma dropWhile_rev_dropWhile:
  "dropWhile P (rev (dropWhile P (rev (dropWhile P xs)))) = rev (dropWhile P (rev (dropWhile P xs)))"
proof (cases "dropWhile P xs")
  case Nil
  then show ?thesis by (simp only: rev.simps dropWhile.simps)
next
  case (Cons y ys)
  then have "\<not> P y"
    using hd_dropWhile [of P xs] by auto
  have "rev (dropWhile P (rev (y # ys))) \<noteq> []"
    using \<open>\<not> P y\<close> by (auto simp add: dropWhile_append split: if_splits)
  moreover have "hd (rev (dropWhile P (rev (y # ys)))) = y"
    using \<open>\<not> P y\<close> by (auto simp add: dropWhile_append hd_append hd_rev last_append  split: if_splits)
  ultimately show ?thesis
    using Cons \<open>\<not> P y\<close> by (cases "rev (dropWhile P (rev (y # ys)))") auto
qed

lemma ascii_trim_idem [simp]: "ascii_trim (ascii_trim s) = ascii_trim s"
  by (simp add: ascii_trim_def dropWhile_rev_dropWhile)

lemma ascii_trim_placeholder: "ascii_trim placeholder = placeholder"
  by (simp add: ascii_trim_def placeholder_def ascii_space_def)

lemma ascii_trim_alloy: "ascii_trim ''alloy'' = ''alloy''"
  by (simp add: ascii_trim_def ascii_space_def)

lemma stable_texts_ascii:
  assumes "trim rt = ascii_trim" and "toLowerCase rt = ascii_toLowerCase"
  shows "stable_texts rt"
  by (simp add: stable_texts_def assms ascii_trim_toLowerCase ascii_trim_placeholder
      ascii_trim_alloy)

lemma stable_texts_sample: "stable_texts sample_runtime"
  by (rule stable_texts_ascii) (simp_all add: sample_runtime_def)

lemma stable_dates_sample: "stable_dates sample_runtime"
  by (simp add: stable_dates_def sample_runtime_def)



lemma placeholder_Nil [simp]: "placeholder \<noteq> []"
  by (simp add: placeholder_def)




lemma trimmed_later [simp]:
  "trimmed (rt\<lparr>clock := later, randomUUID := fresh\<rparr>) = trimmed rt"
  by (rule ext) (simp add: trimmed_def)

lemma insert_new_distinct:
  "distinct acc \<Longrightarrow> distinct (foldl (\<lambda>acc x. if x \<in> set acc then acc else acc @ [x]) acc xs)"
  by (induction xs arbitrary: acc) simp_all

lemma insert_new_set:
  "set (foldl (\<lambda>acc x. if x \<in> set acc then acc else acc @ [x]) acc xs) = set acc \<union> set xs"
  by (induction xs arbitrary: acc) auto


lemma distinct_Array_from_Set [simp]: "distinct (Array_from_Set xs)"
  by (simp add: Array_from_Set_def insert_new_distinct)

lemma set_Array_from_Set [simp]: "set (Array_from_Set xs) = set xs"
  by (simp add: Array_from_Set_def insert_new_set)


lemma mapE_Inr: "mapE (\<lambda>x. Inr (g x)) xs = Inr (map g xs)"
  by (induction xs) simp_all

lemma mapE_map: "mapE f (map h xs) = mapE (\<lambda>x. f (h x)) xs"
  by (induction xs) simp_all




lemma mapE_length:
  assumes "mapE f xs = Inr ys"
  shows "length ys = length xs"
  using assms by (induction xs arbitrary: ys) (auto simp add: bindE_eq_Inr)

lemma mapE_total:
  assumes "\<And>x. x \<in> set xs \<Longrightarrow> \<exists>y. f x = Inr y"
  shows "\<exists>ys. mapE f xs = Inr ys"
  using assms
proof (induction xs)
  case Nil
  then show ?case by simp
next
  case (Cons x xs)
  then obtain y ys where "f x = Inr y" and "mapE f xs = Inr ys"
    by (metis list.set_intros(1) list.set_intros(2))
  then show ?case by simp
qed




lemma clampNumber_range:
  assumes "a \<le> b"
  shows "\<exists>x. clampNumber v (Fin a) (Fin b) = Fin x \<and> a \<le> x \<and> x \<le> b"
  using assms by (cases v) (auto simp add: clampNumber_def Math_max_def Math_min_def)


lemma get_json_of_EnglishWord [simp]:
  "get (json_of_EnglishWord w) ''id'' = JStr (item_id w)"
  "get (json_of_EnglishWord w) ''word'' = JStr (word w)"
  "get (json_of_EnglishWord w) ''meaningZh'' = JStr (meaningZh w)"
  "get (json_of_EnglishWord w) ''tags'' = json_of_tags (tags w)"
  "get (json_of_EnglishWord w) ''needsWork'' = JBool (needsWork w)"
  "get (json_of_EnglishWord w) ''level'' = JNum (level w)"
  "get (json_of_EnglishWord w) ''lastReviewedAt'' = json_of_lastReviewedAt (lastReviewedAt w)"
  by (simp_all add: json_of_EnglishWord_def)

lemma json_of_lastReviewedAt_back [simp]:
  "(case json_of_lastReviewedAt r of JStr s \<Rightarrow> Some s | _ \<Rightarrow> None) = r"
  by (cases r) (simp_all add: json_of_lastReviewedAt_def)




lemma non_null_map_Some [simp]: "non_null (map Some xs) = xs"
  by (induction xs) simp_all





lemma get_json_of_JapaneseSentence [simp]:
  "get (json_of_JapaneseSentence x) ''id'' = JStr (item_id x)"
  "get (json_of_JapaneseSentence x) ''sentence'' = JStr (sentence x)"
  "get (json_of_JapaneseSentence x) ''romaji'' = JStr (romaji x)"
  "get (json_of_JapaneseSentence x) ''meaningZh'' = JStr (meaningZh x)"
  "get (json_of_JapaneseSentence x) ''tags'' = json_of_tags (tags x)"
  "get (json_of_JapaneseSentence x) ''vocabulary'' = JArr (map json_of_JapaneseVocab (vocabulary x))"
  "get (json_of_JapaneseSentence x) ''level'' = JNum (level x)"
  "get (json_of_JapaneseSentence x) ''lastReviewedAt'' = json_of_lastReviewedAt (lastReviewedAt x)"
  by (simp_all add: json_of_JapaneseSentence_def)








lemma get_json_of_numbers [simp]:
  "get (json_of_numbers n) ''en'' = JNum (en n)"
  "get (json_of_numbers n) ''zh'' = JNum (zh n)"
  "get (json_of_numbers n) ''ja'' = JNum (ja n)"
  by (simp_all add: json_of_numbers_def)

lemma get_json_of_strings [simp]:
  "get (json_of_strings n) ''en'' = JStr (en n)"
  "get (json_of_strings n) ''zh'' = JStr (zh n)"
  "get (json_of_strings n) ''ja'' = JStr (ja n)"
  by (simp_all add: json_of_strings_def)



lemma get_json_of_SpeechSettings [simp]:
  "get (json_of_SpeechSettings sp) ''engine''
     = JStr (case engine sp of Browser \<Rightarrow> ''browser'' | OpenAI \<Rightarrow> ''openai'')"
  "get (json_of_SpeechSettings sp) ''openAiVoice'' = JStr (openAiVoice sp)"
  "get (json_of_SpeechSettings sp) ''browserVoices'' = json_of_strings (browserVoices sp)"
  "get (json_of_SpeechSettings sp) ''rates'' = json_of_numbers (rates sp)"
  "get (json_of_SpeechSettings sp) ''pitches'' = json_of_numbers (pitches sp)"
  "get (json_of_SpeechSettings sp) ''browserVolumes'' = json_of_numbers (browserVolumes sp)"
  "get (json_of_SpeechSettings sp) ''openAiVolumes'' = json_of_numbers (openAiVolumes sp)"
  "get (json_of_SpeechSettings sp) ''volumes'' = JUndefined"
  by (simp_all add: json_of_SpeechSettings_def)


lemma sanitizeTags_strings: "\<exists>ts. sanitizeTags rt (JArr (map JStr xs)) = Inr ts"
proof -
  have "mapE (\<lambda>item. bindE (ToString rt (nullish item (JStr []))) (\<lambda>s. Inr (toLowerCase rt (trim rt s))))
          (map JStr xs) = Inr (map (\<lambda>s. toLowerCase rt (trim rt s)) xs)"
    by (simp add: mapE_map mapE_Inr)
  then show ?thesis
    by (simp add: sanitizeTags_def)
qed

lemma seedEnglishWord_total: "\<exists>w. seedEnglishWord rt p = Inr w"
proof -
  obtain ts where "sanitizeTags rt (JArr (map JStr (seed_tags (snd p)))) = Inr ts"
    using sanitizeTags_strings by blast
  then show ?thesis
    by (cases p) (simp add: seedEnglishWord_def)
qed

lemma seedJapaneseSentence_total: "\<exists>x. seedJapaneseSentence rt p = Inr x"
proof -
  obtain ts where "sanitizeTags rt (JArr (map JStr (seed_sentence_tags (snd p)))) = Inr ts"
    using sanitizeTags_strings by blast
  then show ?thesis
    by (cases p) (simp add: seedJapaneseSentence_def)
qed

lemma clampNumber_zero [simp]: "clampNumber (Fin 0) (Fin 0) (Fin 6) = Fin 0"
  by (simp add: clampNumber_def Math_max_def Math_min_def)




lemma createInitialUserData_total:
  "\<exists>ws ss. createInitialUserData rt =
       Inr \<lparr>englishWords = ws, japaneseSentences = ss, speechSettings = defaultSpeechSettings,
            theme = Light, updatedAt = toISOString rt (clock rt)\<rparr>
     \<and> mapE (seedEnglishWord rt) (enumerate 0 (generateEnglishSeedWords rt 220)) = Inr ws
     \<and> mapE (seedJapaneseSentence rt) (enumerate 0 (generateJapaneseSeedSentences rt 220)) = Inr ss"
proof -
  obtain ws where ws: "mapE (seedEnglishWord rt) (enumerate 0 (generateEnglishSeedWords rt 220)) = Inr ws"
    using mapE_total [of _ "seedEnglishWord rt"] seedEnglishWord_total by blast
  obtain ss where ss: "mapE (seedJapaneseSentence rt) (enumerate 0 (generateJapaneseSeedSentences rt 220)) = Inr ss"
    using mapE_total [of _ "seedJapaneseSentence rt"] seedJapaneseSentence_total by blast
  show ?thesis
    by (simp add: createInitialUserData_def ws ss)
qed




lemma sanitizeUserData_kept:
  "sanitizeUserData rt raw =
     bindE (kept_englishWords rt raw) (\<lambda>ws.
     bindE (kept_japaneseSentences rt raw) (\<lambda>ss.
     bindE (if ws \<noteq> [] then Inr ws
            else bindE (createInitialUserData rt) (\<lambda>d. Inr (englishWords d))) (\<lambda>ws'.
     bindE (if ss \<noteq> [] then Inr ss
            else bindE (createInitialUserData rt) (\<lambda>d. Inr (japaneseSentences d))) (\<lambda>ss'.
     bindE (sanitizeSpeechSettings rt
              (get (if ToBoolean raw \<and> typeof_object raw then raw else JObj [])
                 ''speechSettings'')) (\<lambda>sp.
       Inr \<lparr>englishWords = ws', japaneseSentences = ss',
            speechSettings = sp,
            theme = (if get (if ToBoolean raw \<and> typeof_object raw then raw else JObj [])
                            ''theme'' = JStr ''dark'' then Dark else Light),
            updatedAt = parseIsoOr rt
              (get (if ToBoolean raw \<and> typeof_object raw then raw else JObj []) ''updatedAt'')
              (toISOString rt (clock rt))\<rparr>)))))"
  unfolding sanitizeUserData_def kept_englishWords_def kept_japaneseSentences_def Let_def
  by (rule refl)


lemma get_json_of_UserDataRecord [simp]:
  "get (json_of_UserDataRecord d) ''englishWords'' = JArr (map json_of_EnglishWord (englishWords d))"
  "get (json_of_UserDataRecord d) ''japaneseSentences''
     = JArr (map json_of_JapaneseSentence (japaneseSentences d))"
  "get (json_of_UserDataRecord d) ''speechSettings'' = json_of_SpeechSettings (speechSettings d)"
  "get (json_of_UserDataRecord d) ''theme''
     = JStr (case theme d of Light \<Rightarrow> ''light'' | Dark \<Rightarrow> ''dark'')"
  "get (json_of_UserDataRecord d) ''updatedAt'' = JStr (updatedAt d)"
  by (simp_all add: json_of_UserDataRecord_def)

lemma clean_tags_later [simp]:
  "clean_tags (rt\<lparr>clock := later, randomUUID := fresh\<rparr>) = clean_tags rt"
  by (rule ext) (simp add: clean_tags_def)

lemma clean_item_later [simp]:
  "clean_item (rt\<lparr>clock := later, randomUUID := fresh\<rparr>) x = clean_item rt x"
  by (simp add: clean_item_def)

lemma clean_word_later [simp]:
  "clean_word (rt\<lparr>clock := later, randomUUID := fresh\<rparr>) = clean_word rt"
  by (rule ext) (simp add: clean_word_def)

lemma clean_vocab_later [simp]:
  "clean_vocab (rt\<lparr>clock := later, randomUUID := fresh\<rparr>) = clean_vocab rt"
  by (rule ext) (simp add: clean_vocab_def)

lemma clean_sentence_later [simp]:
  "clean_sentence (rt\<lparr>clock := later, randomUUID := fresh\<rparr>) = clean_sentence rt"
  by (rule ext) (simp add: clean_sentence_def)






text \<open>
  What holds of the claims C3 and C1 besides their failing inputs: on \<^verbatim>\<open>undefined\<close> and on
  the empty object the sanitizer returns the seed lists, the default speech settings and
  the light theme; the level of the server lies between 0 and 6, that of the client
  between 0 and 5, and the two agree on every level up to 5.
\<close>

lemma clampNumber_inside:
  assumes "a \<le> v" and "v \<le> b"
  shows "clampNumber (Fin v) (Fin a) (Fin b) = Fin v"
  using assms by (simp add: clampNumber_def Math_max_def Math_min_def)

lemma sanitizeSpeechSettings_default:
  assumes "raw = JUndefined \<or> raw = JObj []"
  shows "sanitizeSpeechSettings rt raw = Inr defaultSpeechSettings"
  using assms
  by (auto simp add: sanitizeSpeechSettings_def numberBuckets_def clampNumber_inside
      defaultSpeechSettings_def string_or_empty_def)

lemma sanitizeUserData_default:
  assumes "raw = JUndefined \<or> raw = JObj []"
  shows "\<exists>ws ss. sanitizeUserData rt raw =
      Inr \<lparr>englishWords = ws, japaneseSentences = ss, speechSettings = defaultSpeechSettings,
           theme = Light, updatedAt = toISOString rt (clock rt)\<rparr>
    \<and> length ws = length (generateEnglishSeedWords rt 220)
    \<and> length ss = length (generateJapaneseSeedSentences rt 220)"
proof -
  obtain sws sss where seeds:
    "createInitialUserData rt =
       Inr \<lparr>englishWords = sws, japaneseSentences = sss, speechSettings = defaultSpeechSettings,
            theme = Light, updatedAt = toISOString rt (clock rt)\<rparr>"
    "mapE (seedEnglishWord rt) (enumerate 0 (generateEnglishSeedWords rt 220)) = Inr sws"
    "mapE (seedJapaneseSentence rt) (enumerate 0 (generateJapaneseSeedSentences rt 220)) = Inr sss"
    using createInitialUserData_total [of rt] by blast
  have speech: "sanitizeSpeechSettings rt JUndefined = Inr defaultSpeechSettings"
    by (simp add: sanitizeSpeechSettings_default)
  have "sanitizeUserData rt raw =
      Inr \<lparr>englishWords = sws, japaneseSentences = sss, speechSettings = defaultSpeechSettings,
           theme = Light, updatedAt = toISOString rt (clock rt)\<rparr>"
    using assms by (auto simp add: sanitizeUserData_def seeds(1) speech parseIsoOr_def)
  then show ?thesis
    using mapE_length [OF seeds(2)] mapE_length [OF seeds(3)] by simp
qed

lemma sanitized_level_range:
  assumes "sanitizeEnglishWord rt raw i = Inr (Some w)"
  shows "\<exists>v. level w = Fin v \<and> 0 \<le> v \<and> v \<le> 6"
proof -
  from assms obtain l where "level w = clampNumber l (Fin 0) (Fin 6)"
    by (auto simp add: sanitizeEnglishWord_def bindE_eq_Inr split: if_splits)
  then show ?thesis
    using clampNumber_range [of 0 6 l] by simp
qed

lemma normalized_level_range:
  assumes "w \<in> set (normalizeEnglishWords rt ws)"
  shows "\<exists>v. level w = Fin v \<and> 0 \<le> v \<and> v \<le> 5"
proof -
  from assms obtain l where "level w = clampNumber l (Fin 0) (Fin 5)"
    by (auto simp add: normalizeEnglishWords_def maxLevel_eq)
  then show ?thesis
    using clampNumber_range [of 0 5 l] by simp
qed

lemma clampNumber_bounds_agree:
  assumes "isNaN v \<or> js_le v (Fin 5)"
  shows "clampNumber v (Fin 0) (Fin 6) = clampNumber v (Fin 0) maxLevel"
  using assms by (cases v) (auto simp add: clampNumber_def Math_max_def Math_min_def maxLevel_eq)

lemma server_client_levels_agree:
  assumes "sanitizeEnglishWord rt (json_of_EnglishWord w) i = Inr (Some w')"
    and "isNaN (level w) \<or> js_le (level w) (Fin 5)"
  shows "map level (normalizeEnglishWords rt' [w]) = [level w']"
proof -
  from assms(1) have "level w' = clampNumber (level w) (Fin 0) (Fin 6)"
    by (auto simp add: sanitizeEnglishWord_def bindE_eq_Inr split: if_splits)
  then show ?thesis
    using clampNumber_bounds_agree [OF assms(2)] by (simp add: normalizeEnglishWords_def)
qed

end
